theory Spec2Isabelle
  imports Complex_Main
begin

section \<open>Common conventions\<close>

text \<open>
  The development embeds the query runner (\<^verbatim>\<open>QueryRunner.cpp\<close>), the result set
  (\<^verbatim>\<open>ResultSet.cpp\<close>) and the entry point of the GSI aircraft bias converter.
  Every operation of the C++ code that is undefined or throws (an unchecked
  \<^verbatim>\<open>operator[]\<close> past the end, \<^verbatim>\<open>front()\<close> or \<^verbatim>\<open>back()\<close> of an empty vector, a
  \<^verbatim>\<open>throw\<close>) is a value \<open>Inl e\<close> of the result type \<open>error + 'a\<close>.

  \<^verbatim>\<open>int\<close> and \<^verbatim>\<open>size_t\<close> values are modelled by \<open>int\<close> and \<open>nat\<close>; where the source
  converts a value between the two (\<^verbatim>\<open>static_cast\<close>, mixed arithmetic) the conversion
  modulo \<open>2 ^ 64\<close> resp. \<open>2 ^ 32\<close> is written out; the size of a vector is taken to fit
  an \<^verbatim>\<open>int\<close>. Signed overflow of a product of repetition counts (undefined in C++) is
  outside the model.
\<close>

datatype error =
    IndexOutOfRange      \<comment> \<open>unchecked \<^verbatim>\<open>operator[]\<close> past the end of a vector\<close>
  | FieldIndexOutOfRange \<comment> \<open>\<^verbatim>\<open>DataFrame::fieldAtIdx\<close> with an index that names no field\<close>
  | FramesEmpty          \<comment> \<open>\<^verbatim>\<open>dataFrames_.front()\<close> on an empty frame list\<close>
  | DimsEmpty            \<comment> \<open>\<^verbatim>\<open>dims[0]\<close> on an empty \<^verbatim>\<open>dims\<close>\<close>
  | BackOfEmpty          \<comment> \<open>\<^verbatim>\<open>back()\<close> of an empty vector\<close>
  | BadAlloc             \<comment> \<open>a vector constructed or reserved with a negative size\<close>
  | LoopDiverges         \<comment> \<open>a \<^verbatim>\<open>count <= SIZE_MAX\<close> loop, which never exits\<close>

definition to_size_t :: "int \<Rightarrow> nat" where
  \<comment> \<open>\<^verbatim>\<open>static_cast<size_t>(int)\<close> on a 64-bit target\<close>
  "to_size_t x = nat (x mod 2 ^ 64)"

definition to_int :: "int \<Rightarrow> int" where
  \<comment> \<open>the conversion of a wider integer to \<^verbatim>\<open>int\<close>: the low 32 bits, read as two's
      complement\<close>
  "to_int x = (let m = x mod 2 ^ 32 in if m < 2 ^ 31 then m else m - 2 ^ 32)"

definition SIZE_MAX :: nat where
  "SIZE_MAX = 2 ^ 64 - 1"

fun foldE :: "('x \<Rightarrow> 's \<Rightarrow> error + 's) \<Rightarrow> 'x list \<Rightarrow> 's \<Rightarrow> error + 's" where
  \<comment> \<open>a \<^verbatim>\<open>for\<close> loop over \<open>xs\<close> whose body may fail: the first failure ends the loop\<close>
  "foldE f [] s = Inr s"
| "foldE f (x # xs) s = (case f x s of Inl e \<Rightarrow> Inl e | Inr s' \<Rightarrow> foldE f xs s')"

definition MissingValue :: real where
  \<comment> \<open>Modelled from the spec: \<^verbatim>\<open>Constants.h\<close> is not among the sources. The spec has
      ``one missing-value sentinel''; \<^verbatim>\<open>ResultSet::getRowsForField\<close> pads with the literal
      \<^verbatim>\<open>10.0e10\<close>, which is the value taken here.\<close>
  "MissingValue = 100000000000"

section \<open>QueryRunner: collecting one message\<close>

subsection \<open>Data\<close>

text \<open>
  \<^verbatim>\<open>NodeLookupTable::DataVector\<close> wraps a \<^verbatim>\<open>boost::variant\<close> of a vector of doubles
  and a vector of strings.
\<close>

datatype DataVector = Doubles "real list" | Strings "string list"

record NodeData =
  counts :: "int list"
  nodeData :: DataVector

record TypeInfo =
  isLongString :: bool
  typeUnit :: string

text \<open>
  Modelled from the spec: the enumeration \<^verbatim>\<open>Typ\<close> of node types is declared outside the
  sources at hand (\<^verbatim>\<open>findTargets\<close> names \<^verbatim>\<open>Typ::Subset\<close> only); its values are the node
  kinds the spec lists.
\<close>

datatype Typ = Subset | FixedRepeatSequence | DelayedRepeatSequence | PlainSequence | Field

text \<open>
  A query component is the subset selector of a query or one mnemonic of its path; the
  latter carries the occurrence filter (\<^verbatim>\<open>filter\<close> in the source, \<open>qfilter\<close> here since
  \<open>filter\<close> is the list function of HOL).
\<close>

record QueryComponent =
  qcName :: string
  qcIndex :: nat
  isAnySubset :: bool
  qfilter :: "nat list"

record Query =
  querySubset :: QueryComponent
  queryPath :: "QueryComponent list"
  str :: string

record TargetComponent =
  queryComponent :: QueryComponent
  nodeId :: nat
  parentNodeId :: nat
  parentDimensionNodeId :: nat
  compType :: Typ
  fixedRepeatCount :: nat

record Target =
  name :: string
  queryStr :: string
  nodeIdx :: nat
  longStrId :: string
  targetDimPaths :: "Query list list"
  typeInfo :: TypeInfo
  exportDimIdxs :: "int list"
  path :: "TargetComponent list"
  seqPath :: "nat list"

text \<open>
  The \<^verbatim>\<open>DataField\<close> that \<^verbatim>\<open>QueryRunner::collectData\<close> fills: the target it belongs to,
  the flat values and the sequence counts (one list of counts per path depth).
\<close>

record CollectedField =
  target :: Target
  fieldData :: DataVector
  fieldSeqCounts :: "int list list"

subsection \<open>\<^verbatim>\<open>QueryRunner::_makeFilteredData\<close> and \<^verbatim>\<open>makeFilteredData\<close>\<close>

text \<open>
  The recursion threads the output vector \<open>data\<close> and the source \<open>offset\<close>. Both
  alternatives of the variant do the same \<^verbatim>\<open>push_back(src[offset])\<close>, so the walk is
  written once, over the element type. At a leaf (\<open>depth > origCounts.size() - 1\<close>)
  the value at \<open>offset\<close> is copied unless \<open>skipResult\<close>, and \<open>offset\<close> is incremented.
  With an empty \<open>origCounts\<close> the unsigned \<open>size() - 1\<close> wraps, the test fails and
  \<^verbatim>\<open>origCounts[depth]\<close> is read out of range. A count \<open>c\<close> bounds the loop over the
  occurrences as a \<^verbatim>\<open>size_t\<close>; for \<open>c = -1\<close> the bound is \<^verbatim>\<open>SIZE_MAX\<close> and the loop
  does not end. The offset is a \<open>nat\<close>: a \<^verbatim>\<open>size_t\<close> offset wraps only after \<open>2 ^ 64\<close>
  leaves.
\<close>

function makeFilteredData_rec ::
  "'a list \<Rightarrow> int list list \<Rightarrow> nat list list \<Rightarrow> nat \<Rightarrow> bool \<Rightarrow> 'a list \<times> nat
     \<Rightarrow> error + ('a list \<times> nat)" where
  "makeFilteredData_rec srcData origCounts filters depth skipResult (data, offset) =
    (if origCounts = [] then Inl IndexOutOfRange
     else if depth > length origCounts - 1 then
       (if \<not> skipResult then
          (if offset < length srcData then Inr (data @ [srcData ! offset], offset + 1)
           else Inl IndexOutOfRange)
        else Inr (data, offset + 1))
     else if depth \<ge> length filters then Inl IndexOutOfRange
     else
       (let layerCounts = origCounts ! depth; layerFilter = filters ! depth in
        if layerFilter = [] then
          foldE (\<lambda>c s. makeFilteredData_rec srcData origCounts filters (depth + 1) skipResult s)
            layerCounts (data, offset)
        else
          foldE (\<lambda>c s.
              if to_size_t c = SIZE_MAX then Inl LoopDiverges
              else
                foldE (\<lambda>count s'.
                    makeFilteredData_rec srcData origCounts filters (depth + 1)
                      (skipResult \<or> count \<notin> set layerFilter) s')
                  [1 ..< to_size_t c + 1] s)
            layerCounts (data, offset)))"
  by pat_completeness auto
termination
  by (relation "measure (\<lambda>(srcData, origCounts, filters, depth, skipResult, s).
        length origCounts - depth)") (auto simp: neq_Nil_conv)

text \<open>
  \<^verbatim>\<open>makeFilteredData\<close> reserves room for \<^verbatim>\<open>sum(origCounts.back())\<close> values (the sum of the
  counts of the deepest level) and starts the walk at depth 0 and offset 0.
  (\<^verbatim>\<open>sum\<close> is a helper of \<^verbatim>\<open>VectorMath.h\<close>, modelled by its name as the sum of the
  elements.)
\<close>

definition sum_vec :: "int list \<Rightarrow> int" where
  "sum_vec xs = fold (\<lambda>x s. s + x) xs 0"

definition makeFilteredData ::
  "DataVector \<Rightarrow> int list list \<Rightarrow> nat list list \<Rightarrow> error + DataVector" where
  "makeFilteredData srcData origCounts filters =
    (if origCounts = [] then Inl BackOfEmpty
     else if sum_vec (last origCounts) < 0 then Inl BadAlloc
     else
       (case srcData of
          Doubles src \<Rightarrow>
            (case makeFilteredData_rec src origCounts filters 0 False ([], 0) of
               Inl e \<Rightarrow> Inl e | Inr (data, offset) \<Rightarrow> Inr (Doubles data))
        | Strings src \<Rightarrow>
            (case makeFilteredData_rec src origCounts filters 0 False ([], 0) of
               Inl e \<Rightarrow> Inl e | Inr (data, offset) \<Rightarrow> Inr (Strings data))))"

subsection \<open>\<^verbatim>\<open>QueryRunner::collectData\<close>\<close>

text \<open>
  \<^verbatim>\<open>NodeLookupTable\<close> is not among the sources; its \<^verbatim>\<open>operator[]\<close> is the parameter
  \<open>lookupTable\<close>, from node ids to the counts and values decoded for that node.
  The loop over the sequence path keeps the counts written to the field
  (\<open>csSeqCounts\<close>), the unfiltered counts and the filters handed to
  \<^verbatim>\<open>makeFilteredData\<close> (both created on the first filter met), and \<open>hasFilter\<close>.
  For a target with node index 0, \<^verbatim>\<open>boost::get<T>(dataField.data.data) = v\<close> is modelled
  as storing \<open>v\<close> as the alternative \<open>T\<close> of the variant.
\<close>

record collectState =
  csSeqCounts :: "int list list"
  csCounts :: "int list list"
  csFilters :: "nat list list"
  csHasFilter :: bool

definition collectStep ::
  "(nat \<Rightarrow> NodeData) \<Rightarrow> Target \<Rightarrow> nat \<Rightarrow> collectState \<Rightarrow> error + collectState" where
  "collectStep lookupTable targ pathIdx st =
    (if pathIdx + 1 \<ge> length (path targ) then Inl IndexOutOfRange
     else
       (let pathComponent = path targ ! (pathIdx + 1);
            flt = qfilter (queryComponent pathComponent);
            nodeCounts = counts (lookupTable (nodeId pathComponent))
        in
        if flt = [] then
          Inr (st\<lparr>csSeqCounts := (csSeqCounts st)[pathIdx + 1 := nodeCounts]\<rparr>)
        else
          (let n = length (seqPath targ);
               cnts = (if csCounts st = [] then replicate (n + 1) [1] else csCounts st);
               flts = (if csFilters st = [] then replicate (n + 1) [] else csFilters st);
               filteredCounts =
                 map (\<lambda>c. max (int (length flt)) c) (replicate (length nodeCounts) 1)
           in
           Inr \<lparr>csSeqCounts = (csSeqCounts st)[pathIdx + 1 := filteredCounts],
                csCounts = cnts[pathIdx + 1 := nodeCounts],
                csFilters = flts[pathIdx + 1 := flt],
                csHasFilter = True\<rparr>)))"

definition collectField :: "(nat \<Rightarrow> NodeData) \<Rightarrow> Target \<Rightarrow> error + CollectedField" where
  \<comment> \<open>the body of the loop over the targets: the field collected for one target\<close>
  "collectField lookupTable targ =
    (if nodeIdx targ = 0 then
       Inr \<lparr>target = targ,
            fieldData =
              (if isLongString (typeInfo targ) then Strings [[]] else Doubles [MissingValue]),
            fieldSeqCounts = [[1]]\<rparr>
     else
       (let n = length (seqPath targ);
            st0 = \<lparr>csSeqCounts = (replicate (n + 1) [])[0 := [1]], csCounts = [],
                   csFilters = [], csHasFilter = False\<rparr>
        in
        case foldE (collectStep lookupTable targ) [0 ..< n] st0 of
          Inl e \<Rightarrow> Inl e
        | Inr st \<Rightarrow>
            (if path targ = [] then Inl BackOfEmpty
             else
               (let srcData = nodeData (lookupTable (nodeId (last (path targ)))) in
                if \<not> csHasFilter st then
                  Inr \<lparr>target = targ, fieldData = srcData, fieldSeqCounts = csSeqCounts st\<rparr>
                else
                  (case makeFilteredData srcData (csCounts st) (csFilters st) of
                     Inl e \<Rightarrow> Inl e
                   | Inr d \<Rightarrow>
                       Inr \<lparr>target = targ, fieldData = d,
                            fieldSeqCounts = csSeqCounts st\<rparr>)))))"

fun collectData_loop :: "(nat \<Rightarrow> NodeData) \<Rightarrow> Target list \<Rightarrow> error + CollectedField list" where
  "collectData_loop lookupTable [] = Inr []"
| "collectData_loop lookupTable (targ # targets) =
    (case collectField lookupTable targ of
       Inl e \<Rightarrow> Inl e
     | Inr fld \<Rightarrow>
         (case collectData_loop lookupTable targets of
            Inl e \<Rightarrow> Inl e
          | Inr flds \<Rightarrow> Inr (fld # flds)))"

definition collectData ::
  "(nat \<Rightarrow> NodeData) \<Rightarrow> nat \<Rightarrow> Target list \<Rightarrow> error + CollectedField list" where
  \<comment> \<open>the new frame has \<open>numNames\<close> fields (\<^verbatim>\<open>DataFrame(names_.size())\<close>); field
      \<open>targetIdx\<close> is filled from target \<open>targetIdx\<close>\<close>
  "collectData lookupTable numNames targets =
    (if length targets > numNames then Inl FieldIndexOutOfRange
     else collectData_loop lookupTable targets)"

section \<open>ResultSet: the dense export\<close>

subsection \<open>Data\<close>

text \<open>
  The \<^verbatim>\<open>DataField\<close> as \<^verbatim>\<open>ResultSet.cpp\<close> reads it (a vector of doubles where
  \<^verbatim>\<open>QueryRunner.cpp\<close> writes a variant): the flat values, the sequence counts, the
  dimension paths and export dimensions of the target, the \<^verbatim>\<open>missing\<close> flag and the
  unit string. A \<^verbatim>\<open>DataFrame\<close> is the vector of the fields of one message.
  \<^verbatim>\<open>DataFrame::fieldAtIdx\<close> indexes that vector; \<^verbatim>\<open>DataFrame::fieldIndexForNodeNamed\<close>,
  whose source is not at hand, is the parameter \<open>fieldIndexForNodeNamed\<close> of the
  functions below.
\<close>

record DataField =
  data :: "real list"
  seqCounts :: "int list list"
  dimPaths :: "string list"
  exportDims :: "int list"
  missing :: bool
  unit :: string

type_synonym DataFrame = "DataField list"

definition fieldAtIdx :: "DataFrame \<Rightarrow> int \<Rightarrow> error + DataField" where
  "fieldAtIdx dataFrame idx =
    (if 0 \<le> idx \<and> idx < int (length dataFrame) then Inr (dataFrame ! nat idx)
     else Inl FieldIndexOutOfRange)"

subsection \<open>Vector helpers\<close>

text \<open>
  Modelled from the spec: \<^verbatim>\<open>VectorMath.h\<close> is not among the sources. By their names and the
  spec's words (``take the maximum observed count'', ``row count = product of those
  leading dimensions'') \<^verbatim>\<open>max\<close> is the largest element of a non-empty vector,
  \<^verbatim>\<open>product\<close> the product of the elements, \<^verbatim>\<open>slice(v, idxs)\<close> the elements of \<open>v\<close> at
  the given indices, and the arithmetic operators between a vector and a scalar work
  element by element.
\<close>

fun max_vec :: "int list \<Rightarrow> int" where
  \<comment> \<open>the source calls \<^verbatim>\<open>max\<close> on non-empty vectors only\<close>
  "max_vec [] = 0"
| "max_vec (x # xs) = fold max xs x"

definition product_vec :: "int list \<Rightarrow> int" where
  "product_vec xs = fold (\<lambda>x p. p * x) xs 1"

fun slice :: "int list \<Rightarrow> int list \<Rightarrow> error + int list" where
  "slice vec [] = Inr []"
| "slice vec (i # idxs) =
    (if 0 \<le> i \<and> i < int (length vec) then
       (case slice vec idxs of Inl e \<Rightarrow> Inl e | Inr r \<Rightarrow> Inr (vec ! nat i # r))
     else Inl IndexOutOfRange)"

subsection \<open>\<^verbatim>\<open>ResultSet::getRowsForField\<close>\<close>

definition computeInserts :: "int list \<Rightarrow> int list list \<Rightarrow> int list list" where
  \<comment> \<open>the loop ``Compute insert array''\<close>
  "computeInserts dims seqCnts =
    fold (\<lambda>repIdx inserts.
        inserts[repIdx :=
          map (\<lambda>c. product_vec (drop repIdx dims) - c * product_vec (drop (repIdx + 1) dims))
            (seqCnts ! repIdx)])
      [0 ..< min (length dims) (length seqCnts)]
      (replicate (length dims) [0])"

definition applyInsert :: "int list \<Rightarrow> nat \<Rightarrow> nat \<Rightarrow> int \<Rightarrow> nat list \<Rightarrow> nat list" where
  \<comment> \<open>the body of the loop over \<open>insert_idx\<close>: \<open>num_inserts\<close> is a \<^verbatim>\<open>size_t\<close>,
      \<open>data_idx\<close> an \<^verbatim>\<open>int\<close> computed in \<^verbatim>\<open>size_t\<close> arithmetic\<close>
  "applyInsert dims dim_idx insert_idx ins idxs =
    (let num_inserts = to_size_t ins in
     if num_inserts > 0 then
       (let data_idx =
              to_int (product_vec (drop dim_idx dims) * int insert_idx
                      + product_vec (drop dim_idx dims) - int num_inserts - 1)
        in map (\<lambda>idx. if to_int (int idx) > data_idx then (idx + num_inserts) mod 2 ^ 64
                       else idx) idxs)
     else idxs)"

definition inflateIdxs :: "int list \<Rightarrow> int list list \<Rightarrow> nat list \<Rightarrow> nat list" where
  \<comment> \<open>the loop ``Inflate the data'': \<open>dim_idx\<close> runs from \<open>dims.size() - 1\<close> down to 0\<close>
  "inflateIdxs dims inserts idxs =
    fold (\<lambda>dim_idx idxs'.
        fold (\<lambda>insert_idx idxs''.
            applyInsert dims dim_idx insert_idx (inserts ! dim_idx ! insert_idx) idxs'')
          [0 ..< length (inserts ! dim_idx)] idxs')
      (rev [0 ..< length dims]) idxs"

fun scatter :: "nat list \<Rightarrow> real list \<Rightarrow> real list \<Rightarrow> error + real list" where
  \<comment> \<open>\<^verbatim>\<open>output[idxs[i]] = targetField.data[i]\<close> for every \<open>i\<close>\<close>
  "scatter [] vs output = Inr output"
| "scatter (idx # idxs) [] output = Inr output"
| "scatter (idx # idxs) (v # vs) output =
    (if idx < length output then scatter idxs vs (output[idx := v])
     else Inl IndexOutOfRange)"

definition maxCountsOf :: "int list list \<Rightarrow> nat" where
  "maxCountsOf seqCnts = fold (\<lambda>sc m. if m < length sc then length sc else m) seqCnts 0"

definition getRowsForField ::
  "DataField \<Rightarrow> int list \<Rightarrow> int \<Rightarrow> error + real list list" where
  "getRowsForField targetField dims groupbyIdx =
    (let maxCounts = maxCountsOf (seqCounts targetField);
         idxs = inflateIdxs dims (computeInserts dims (seqCounts targetField))
                  [0 ..< length (data targetField)]
     in
     if product_vec dims < 0 then Inl BadAlloc
     else
       (case scatter idxs (data targetField)
               (replicate (nat (product_vec dims)) 100000000000) of
          Inl e \<Rightarrow> Inl e
        | Inr output \<Rightarrow>
            if groupbyIdx > 0 then
              (if groupbyIdx > int (length (seqCounts targetField)) then
                 (let numRows = nat (product_vec dims);
                      dataRows = replicate (numRows * maxCounts) [MissingValue]
                  in
                  if output = [] then Inr dataRows
                  else if numRows > length dataRows then Inl IndexOutOfRange
                  else Inr (replicate numRows [output ! 0] @ drop numRows dataRows))
               else if groupbyIdx > int (length dims) then Inl IndexOutOfRange
               else
                 (let numRows = to_size_t (product_vec (take (nat groupbyIdx) dims));
                      numsPerRow = to_size_t (product_vec (drop (nat groupbyIdx) dims))
                  in
                  if numRows * numsPerRow > length output then Inl IndexOutOfRange
                  else
                    Inr (map (\<lambda>i. map (\<lambda>j. output ! (i * numsPerRow + j)) [0 ..< numsPerRow])
                           [0 ..< numRows])))
            else Inr [output]))"

subsection \<open>\<^verbatim>\<open>ResultSet::getRawValues\<close>\<close>

text \<open>
  The first loop over the frames computes, for the target field, the dimension paths,
  the export dimensions, the largest count per depth (\<open>dimsList\<close>) and, with a group-by
  field, the group-by depth and the largest number of group-by elements.
\<close>

record dimsState =
  dsDimPaths :: "string list"
  dsExportDims :: "int list"
  dsDimsList :: "int list"
  dsGroupbyIdx :: int
  dsTotalGroupbyElements :: int

definition resizeDims :: "int list \<Rightarrow> nat \<Rightarrow> int list" where
  \<comment> \<open>\<^verbatim>\<open>if (dimsList.size() < dimsLen) dimsList.resize(dimsLen, 0)\<close>\<close>
  "resizeDims dimsList dimsLen =
    (if length dimsList < dimsLen then dimsList @ replicate (dimsLen - length dimsList) 0
     else dimsList)"

fun updateDimsList :: "int list \<Rightarrow> int list list \<Rightarrow> int list" where
  \<comment> \<open>the loop over \<open>cntIdx\<close>: position by position, the larger of the entry and the
      maximum of the non-empty count list at that depth\<close>
  "updateDimsList dimsList [] = dimsList"
| "updateDimsList [] (c # cs) = []"
| "updateDimsList (d # dimsList) (c # cs) =
    (if c \<noteq> [] then max d (max_vec c) else d) # updateDimsList dimsList cs"

definition groupbyElementsForFrame :: "int list list \<Rightarrow> int" where
  "groupbyElementsForFrame seqCnts =
    fold (\<lambda>seqCount n. if seqCount \<noteq> [] then n * max_vec seqCount else n) seqCnts 1"

definition frameStep ::
  "string \<Rightarrow> int \<Rightarrow> int \<Rightarrow> DataFrame \<Rightarrow> dimsState \<Rightarrow> error + dimsState" where
  "frameStep groupByField targetFieldIdx groupByFieldIdx dataFrame st =
    (case fieldAtIdx dataFrame targetFieldIdx of
       Inl e \<Rightarrow> Inl e
     | Inr targetField \<Rightarrow>
         (let longer = (dimPaths targetField \<noteq> []
                         \<and> length (dsDimPaths st) < length (dimPaths targetField));
              dimPaths1 = (if longer then dimPaths targetField else dsDimPaths st);
              exportDims1 = (if longer then exportDims targetField else dsExportDims st);
              dimsList1 =
                updateDimsList
                  (resizeDims (dsDimsList st) (length (seqCounts targetField)))
                  (seqCounts targetField)
          in
          if groupByField = [] then
            Inr (st\<lparr>dsDimPaths := dimPaths1, dsExportDims := exportDims1,
                    dsDimsList := dimsList1\<rparr>)
          else
            (case fieldAtIdx dataFrame groupByFieldIdx of
               Inl e \<Rightarrow> Inl e
             | Inr groupByFld \<Rightarrow>
                 (let groupbyIdx =
                        max (dsGroupbyIdx st) (int (length (seqCounts groupByFld)))
                  in
                  if groupbyIdx > int (length dimsList1) then
                    (if dimPaths groupByFld = [] then Inl BackOfEmpty
                     else
                       Inr \<lparr>dsDimPaths = [last (dimPaths groupByFld)],
                            dsExportDims = exportDims1,
                            dsDimsList = dimsList1,
                            dsGroupbyIdx = groupbyIdx,
                            dsTotalGroupbyElements =
                              max (dsTotalGroupbyElements st)
                                (groupbyElementsForFrame (seqCounts groupByFld))\<rparr>)
                  else
                    Inr \<lparr>dsDimPaths =
                           (if exportDims groupByFld = [] then []
                            else drop (length (exportDims groupByFld) - 1)
                                   (dimPaths targetField)),
                         dsExportDims = exportDims1,
                         dsDimsList = dimsList1,
                         dsGroupbyIdx = groupbyIdx,
                         dsTotalGroupbyElements = dsTotalGroupbyElements st\<rparr>))))"

definition initialDims ::
  "(DataFrame \<Rightarrow> string \<Rightarrow> int) \<Rightarrow> DataFrame list \<Rightarrow> string \<Rightarrow> string
     \<Rightarrow> error + (int \<times> int \<times> dimsState)" where
  \<comment> \<open>the block \<^verbatim>\<open>if (dataFrames_.size() > 0)\<close>: the field indices and the first frame's
      dimension paths and export dimensions\<close>
  "initialDims fieldIndexForNodeNamed dataFrames fieldName groupByField =
    (case dataFrames of
       [] \<Rightarrow>
         Inr (0, 0, \<lparr>dsDimPaths = [], dsExportDims = [], dsDimsList = [],
                     dsGroupbyIdx = 0, dsTotalGroupbyElements = 0\<rparr>)
     | frame0 # _ \<Rightarrow>
         (let targetFieldIdx = fieldIndexForNodeNamed frame0 fieldName;
              groupByFieldIdx =
                (if groupByField \<noteq> [] then fieldIndexForNodeNamed frame0 groupByField else 0)
          in
          case fieldAtIdx frame0 targetFieldIdx of
            Inl e \<Rightarrow> Inl e
          | Inr targetField \<Rightarrow>
              Inr (targetFieldIdx, groupByFieldIdx,
                   \<lparr>dsDimPaths = dimPaths targetField,
                    dsExportDims = exportDims targetField,
                    dsDimsList = [], dsGroupbyIdx = 0, dsTotalGroupbyElements = 0\<rparr>)))"

definition computeDims ::
  "(DataFrame \<Rightarrow> string \<Rightarrow> int) \<Rightarrow> DataFrame list \<Rightarrow> string \<Rightarrow> string
     \<Rightarrow> error + (int \<times> dimsState)" where
  \<comment> \<open>``Compute Dims'': the initial block and the first loop over the frames; the
      result is the target field's index and the state after the loop\<close>
  "computeDims fieldIndexForNodeNamed dataFrames fieldName groupByField =
    (case initialDims fieldIndexForNodeNamed dataFrames fieldName groupByField of
       Inl e \<Rightarrow> Inl e
     | Inr (targetFieldIdx, groupByFieldIdx, st0) \<Rightarrow>
         (case foldE (frameStep groupByField targetFieldIdx groupByFieldIdx) dataFrames st0 of
            Inl e \<Rightarrow> Inl e
          | Inr st \<Rightarrow> Inr (targetFieldIdx, st)))"

definition atLeastOne :: "int list \<Rightarrow> int list" where
  \<comment> \<open>\<open>allDims\<close>: every dimension of size zero is given one element\<close>
  "atLeastOne dimsList = map (\<lambda>d. if d = 0 then 1 else d) dimsList"

definition groupByDims :: "int list \<Rightarrow> int \<Rightarrow> int list" where
  \<comment> \<open>the group-by field at a lower repetition level: \<open>dims\<close> is resized to
      \<open>dimsList.size() - groupbyIdx + 1\<close> ones, the leading \<open>groupbyIdx\<close> dimensions are
      multiplied into \<open>dims[0]\<close> and the others copied behind it\<close>
  "groupByDims allDims groupbyIdx =
    (let g = nat groupbyIdx;
         dims0 = replicate (length allDims - g + 1) 1;
         dims1 = fold (\<lambda>dimIdx dims. dims[0 := dims ! 0 * allDims ! dimIdx]) [0 ..< g] dims0
     in fold (\<lambda>dimIdx dims. dims[dimIdx - g + 1 := allDims ! dimIdx])
          [g ..< length allDims] dims1)"

definition groupByExportDims :: "int list \<Rightarrow> int \<Rightarrow> int list" where
  \<comment> \<open>\<open>exportDims - (groupbyIdx - 1)\<close>, the negative entries dropped, and a leading 0\<close>
  "groupByExportDims exportDms groupbyIdx =
    (let filteredExportDims =
           filter (\<lambda>e. e \<ge> 0) (map (\<lambda>e. e - (groupbyIdx - 1)) exportDms)
     in if filteredExportDims = [] \<or> hd filteredExportDims \<noteq> 0 then 0 # filteredExportDims
        else filteredExportDims)"

definition shapeOf :: "dimsState \<Rightarrow> int list \<times> int list \<times> int list" where
  \<comment> \<open>\<open>(dims, allDims, exportDims)\<close> of one frame, from the state after the first loop\<close>
  "shapeOf st =
    (let dimsList = dsDimsList st; groupbyIdx = dsGroupbyIdx st;
         allDims = atLeastOne dimsList
     in
     if groupbyIdx > 0 then
       (if groupbyIdx > int (length dimsList) then
          ([dsTotalGroupbyElements st], [dsTotalGroupbyElements st], [0])
        else
          (groupByDims allDims groupbyIdx, allDims,
           groupByExportDims (dsExportDims st) groupbyIdx))
     else (allDims, allDims, dsExportDims st))"

fun writeRow :: "nat \<Rightarrow> real list \<Rightarrow> real list \<Rightarrow> error + real list" where
  \<comment> \<open>\<open>data[start + colIdx] = row[colIdx]\<close> for every column\<close>
  "writeRow start [] out = Inr out"
| "writeRow start (v # row) out =
    (if start < length out then writeRow (start + 1) row (out[start := v])
     else Inl IndexOutOfRange)"

definition writeRows :: "nat \<Rightarrow> real list list \<Rightarrow> real list \<Rightarrow> error + real list" where
  \<comment> \<open>row \<open>rowIdx\<close> starts at \<open>base + rowIdx * row.size()\<close>\<close>
  "writeRows base frameData out =
    foldE (\<lambda>rowIdx out'.
        writeRow (base + rowIdx * length (frameData ! rowIdx)) (frameData ! rowIdx) out')
      [0 ..< length frameData] out"

definition fillFrame ::
  "int \<Rightarrow> int list \<Rightarrow> int list \<Rightarrow> int \<Rightarrow> int \<Rightarrow> DataFrame list \<Rightarrow> nat \<Rightarrow> real list
     \<Rightarrow> error + real list" where
  \<comment> \<open>the body of the second loop over the frames\<close>
  "fillFrame targetFieldIdx dims allDims groupbyIdx rowLength dataFrames frameIdx out =
    (case fieldAtIdx (dataFrames ! frameIdx) targetFieldIdx of
       Inl e \<Rightarrow> Inl e
     | Inr targetField \<Rightarrow>
         if \<not> missing targetField then
           (case getRowsForField targetField allDims groupbyIdx of
              Inl e \<Rightarrow> Inl e
            | Inr frameData \<Rightarrow>
                (let dataRowIdx = to_size_t (dims ! 0) * frameIdx in
                 writeRows (dataRowIdx * to_size_t rowLength) frameData out))
         else Inr out)"

record RawValues =
  rvData :: "real list"
  rvDims :: "int list"
  rvDimPaths :: "string list"

definition getRawValues ::
  "(DataFrame \<Rightarrow> string \<Rightarrow> int) \<Rightarrow> DataFrame list \<Rightarrow> string \<Rightarrow> string
     \<Rightarrow> error + RawValues" where
  "getRawValues fieldIndexForNodeNamed dataFrames fieldName groupByField =
    (case computeDims fieldIndexForNodeNamed dataFrames fieldName groupByField of
       Inl e \<Rightarrow> Inl e
     | Inr (targetFieldIdx, st) \<Rightarrow>
         (case shapeOf st of
            (dims, allDims, exportDms) \<Rightarrow>
              if dims = [] then Inl DimsEmpty
              else
                (let totalRows = to_size_t (dims ! 0) * length dataFrames;
                     rowLength = product_vec (tl dims)
                 in
                 case foldE (fillFrame targetFieldIdx dims allDims (dsGroupbyIdx st)
                               rowLength dataFrames)
                        [0 ..< length dataFrames]
                        (replicate (totalRows * to_size_t rowLength) MissingValue) of
                   Inl e \<Rightarrow> Inl e
                 | Inr out \<Rightarrow>
                     (let dims' = dims[0 := to_int (int totalRows)] in
                      if length dataFrames > 1 then
                        (case slice dims' exportDms of
                           Inl e \<Rightarrow> Inl e
                         | Inr sliced \<Rightarrow>
                             Inr \<lparr>rvData = out, rvDims = sliced,
                                  rvDimPaths = dsDimPaths st\<rparr>)
                      else
                        Inr \<lparr>rvData = out, rvDims = dims', rvDimPaths = dsDimPaths st\<rparr>))))"

subsection \<open>\<^verbatim>\<open>ResultSet::unit\<close> and \<^verbatim>\<open>ResultSet::get\<close>\<close>

definition ResultSet_unit ::
  "(DataFrame \<Rightarrow> string \<Rightarrow> int) \<Rightarrow> DataFrame list \<Rightarrow> string \<Rightarrow> error + string" where
  "ResultSet_unit fieldIndexForNodeNamed dataFrames fieldName =
    (case dataFrames of
       [] \<Rightarrow> Inl FramesEmpty
     | frame0 # _ \<Rightarrow>
         (case fieldAtIdx frame0 (fieldIndexForNodeNamed frame0 fieldName) of
            Inl e \<Rightarrow> Inl e
          | Inr fld \<Rightarrow> Inr (unit fld)))"

datatype ElementType = StringElements | UInt32Elements | FloatElements

record DataObject =
  elementType :: ElementType
  objData :: "real list"
  objMissingValue :: real
  objDims :: "int list"
  objFieldName :: string
  objGroupByFieldName :: string
  objDimPaths :: "string list"

definition elementTypeOfUnit :: "string \<Rightarrow> ElementType" where
  \<comment> \<open>which \<^verbatim>\<open>DataObject<T>\<close> is made for a unit string\<close>
  "elementTypeOfUnit u =
    (if u = ''CCITT IA5'' then StringElements
     else if u = ''CODE TABLE'' \<or> u = ''FLAG TABLE'' \<or> u = ''NUMERIC'' then UInt32Elements
     else FloatElements)"

definition whitespace :: "char list" where
  \<comment> \<open>\<^verbatim>\<open>" \t\n\r\f\v"\<close>\<close>
  "whitespace = [CHR '' '', CHR 0x09, CHR 0x0A, CHR 0x0D, CHR 0x0C, CHR 0x0B]"

definition trimRight :: "string \<Rightarrow> string" where
  \<comment> \<open>\<^verbatim>\<open>path_str.erase(path_str.find_last_not_of(ws) + 1)\<close>\<close>
  "trimRight s = rev (dropWhile (\<lambda>c. c \<in> set whitespace) (rev s))"

definition ResultSet_get ::
  "(DataFrame \<Rightarrow> string \<Rightarrow> int) \<Rightarrow> DataFrame list \<Rightarrow> string \<Rightarrow> string
     \<Rightarrow> error + DataObject" where
  "ResultSet_get fieldIndexForNodeNamed dataFrames fieldName groupByFieldName =
    (case getRawValues fieldIndexForNodeNamed dataFrames fieldName groupByFieldName of
       Inl e \<Rightarrow> Inl e
     | Inr raw \<Rightarrow>
         (case ResultSet_unit fieldIndexForNodeNamed dataFrames fieldName of
            Inl e \<Rightarrow> Inl e
          | Inr u \<Rightarrow>
              if length (rvDimPaths raw) < length (rvDims raw) then Inl IndexOutOfRange
              else
                Inr \<lparr>elementType = elementTypeOfUnit u,
                     objData = rvData raw,
                     objMissingValue = MissingValue,
                     objDims = rvDims raw,
                     objFieldName = fieldName,
                     objGroupByFieldName = groupByFieldName,
                     objDimPaths =
                       map trimRight (take (length (rvDims raw)) (rvDimPaths raw))\<rparr>))"

section \<open>QueryRunner: resolving the targets\<close>

text \<open>
  \<^verbatim>\<open>QuerySet\<close>, \<^verbatim>\<open>SubsetTable\<close>, \<^verbatim>\<open>BufrNode\<close>, the data provider and \<^verbatim>\<open>Target::setPath\<close> are
  declared outside the sources at hand; what \<^verbatim>\<open>findTargets\<close> reads of them is gathered
  in the record \<open>QueryEnv\<close>: the names of the query set and the queries of each name,
  the subset variant of the current message, the root node and the path lookup of the
  subset table built for it, and \<open>setPath\<close>. A table node carries what \<^verbatim>\<open>findTargets\<close>
  reads of it and of the nodes on its path (for each the index of the node, of its
  parent and of its dimension parent, its type and its fixed repeat count).
\<close>

record SubsetVariant =
  subsetName :: string
  variantId :: nat

record PathNode =
  pathNodeIdx :: nat
  parentIdx :: nat
  dimensionParentIdx :: nat
  nodeType :: Typ
  fixedRepCount :: nat

record BufrNode =
  tableNodeIdx :: nat
  mnemonic :: string
  mnemonicCnt :: nat
  nodeTypeInfo :: TypeInfo
  pathNodes :: "PathNode list"

record QueryEnv =
  names :: "string list"
  queriesFor :: "string \<Rightarrow> Query list"
  getSubsetVariant :: SubsetVariant
  rootNodeIdx :: nat
  getNodeForPath :: "QueryComponent list \<Rightarrow> BufrNode option"
  setPath :: "TargetComponent list \<Rightarrow> Target \<Rightarrow> Target"

datatype Warning = QueryDidNotApply string SubsetVariant
  \<comment> \<open>``Warning: Query String \<dots> didn't apply to subset \<dots>''\<close>

definition defaultComponent :: QueryComponent where
  "defaultComponent = \<lparr>qcName = [], qcIndex = 0, isAnySubset = False, qfilter = []\<rparr>"

definition defaultQuery :: Query where
  \<comment> \<open>\<^verbatim>\<open>Query()\<close>\<close>
  "defaultQuery = \<lparr>querySubset = defaultComponent, queryPath = [], str = []\<rparr>"

definition defaultTypeInfo :: TypeInfo where
  \<comment> \<open>\<^verbatim>\<open>TypeInfo()\<close>\<close>
  "defaultTypeInfo = \<lparr>isLongString = False, typeUnit = []\<rparr>"

definition defaultTargetComponent :: TargetComponent where
  "defaultTargetComponent =
    \<lparr>queryComponent = defaultComponent, nodeId = 0, parentNodeId = 0,
     parentDimensionNodeId = 0, compType = Subset, fixedRepeatCount = 0\<rparr>"

definition defaultTarget :: Target where
  \<comment> \<open>\<^verbatim>\<open>std::make_shared<Target>()\<close>\<close>
  "defaultTarget =
    \<lparr>name = [], queryStr = [], nodeIdx = 0, longStrId = [], targetDimPaths = [],
     typeInfo = defaultTypeInfo, exportDimIdxs = [], path = [], seqPath = []\<rparr>"

fun searchQueries ::
  "QueryEnv \<Rightarrow> Query list \<Rightarrow> Query \<times> BufrNode option \<Rightarrow> Query \<times> BufrNode option" where
  \<comment> \<open>the loop over the sub-queries of a name, on \<open>(foundQuery, tableNode)\<close>: it ends at
      the first matching query whose path resolves\<close>
  "searchQueries env [] found = found"
| "searchQueries env (query # queries) found =
    (if isAnySubset (querySubset query)
        \<or> (qcName (querySubset query) = subsetName (getSubsetVariant env)
           \<and> qcIndex (querySubset query) = variantId (getSubsetVariant env))
     then
       (case getNodeForPath env (queryPath query) of
          Some tableNode \<Rightarrow> (query, Some tableNode)
        | None \<Rightarrow> searchQueries env queries (query, None))
     else searchQueries env queries found)"

fun digits :: "nat \<Rightarrow> string" where
  "digits n =
    (if n < 10 then [''0123456789'' ! n]
     else digits (n div 10) @ [''0123456789'' ! (n mod 10)])"

definition to_string :: "nat \<Rightarrow> string" where
  \<comment> \<open>\<^verbatim>\<open>std::to_string\<close> of a non-negative number: its decimal digits\<close>
  "to_string n = digits n"

definition makePath :: "QueryEnv \<Rightarrow> Query \<Rightarrow> BufrNode \<Rightarrow> error + TargetComponent list" where
  \<comment> \<open>``Create the target components'': \<open>foundQuery.path.size() + 1\<close> components, the
      first for the subset, component \<open>nodeIdx\<close> from \<open>nodes[nodeIdx]\<close> and
      \<open>foundQuery.path[nodeIdx - 1]\<close>\<close>
  "makePath env foundQuery tableNode =
    (let path0 = (replicate (length (queryPath foundQuery) + 1) defaultTargetComponent)
                   [0 := \<lparr>queryComponent = querySubset foundQuery,
                          nodeId = rootNodeIdx env, parentNodeId = 0,
                          parentDimensionNodeId = 0, compType = Subset,
                          fixedRepeatCount = 0\<rparr>];
         nodes = pathNodes tableNode
     in
     foldE (\<lambda>nodeIdx path'.
         if nodeIdx < length path' \<and> nodeIdx - 1 < length (queryPath foundQuery) then
           Inr (path'[nodeIdx :=
                  \<lparr>queryComponent = queryPath foundQuery ! (nodeIdx - 1),
                   nodeId = pathNodeIdx (nodes ! nodeIdx),
                   parentNodeId = parentIdx (nodes ! nodeIdx),
                   parentDimensionNodeId = dimensionParentIdx (nodes ! nodeIdx),
                   compType = nodeType (nodes ! nodeIdx),
                   fixedRepeatCount = fixedRepCount (nodes ! nodeIdx)\<rparr>])
         else Inl IndexOutOfRange)
       [1 ..< length nodes] path0)"

definition resolveName ::
  "QueryEnv \<Rightarrow> string \<Rightarrow> Target list \<times> Warning list
     \<Rightarrow> error + (Target list \<times> Warning list)" where
  \<comment> \<open>the body of the loop over the names of the query set\<close>
  "resolveName env nm acc =
    (case acc of
       (targets, warnings) \<Rightarrow>
         (case searchQueries env (queriesFor env nm) (defaultQuery, None) of
            (foundQuery, None) \<Rightarrow>
              (case queriesFor env nm of
                 [] \<Rightarrow> Inl IndexOutOfRange
               | query0 # _ \<Rightarrow>
                   Inr (targets @
                          [defaultTarget\<lparr>name := nm, nodeIdx := 0, queryStr := str query0,
                             targetDimPaths := [[defaultQuery]],
                             typeInfo := defaultTypeInfo, exportDimIdxs := [0]\<rparr>],
                        warnings @ [QueryDidNotApply (str query0) (getSubsetVariant env)]))
          | (foundQuery, Some tableNode) \<Rightarrow>
              (case makePath env foundQuery tableNode of
                 Inl e \<Rightarrow> Inl e
               | Inr path' \<Rightarrow>
                   Inr (targets @
                          [(setPath env path'
                              (defaultTarget\<lparr>name := nm, queryStr := str foundQuery\<rparr>))
                             \<lparr>typeInfo := nodeTypeInfo tableNode,
                              nodeIdx := tableNodeIdx tableNode,
                              longStrId := mnemonic tableNode @ ''#''
                                             @ to_string (mnemonicCnt tableNode)\<rparr>],
                        warnings))))"

text \<open>
  \<^verbatim>\<open>findTargets\<close> on the state \<open>targetCache\<close> (a map from subset variants to target
  lists) and the caller's \<open>targets\<close>: the result is the target list, the cache after
  the call and the warnings printed by it.
\<close>

definition findTargets ::
  "QueryEnv \<Rightarrow> (SubsetVariant \<rightharpoonup> Target list) \<Rightarrow> Target list
     \<Rightarrow> error + (Target list \<times> (SubsetVariant \<rightharpoonup> Target list) \<times> Warning list)" where
  "findTargets env targetCache targets =
    (case targetCache (getSubsetVariant env) of
       Some cached \<Rightarrow> Inr (cached, targetCache, [])
     | None \<Rightarrow>
         (case foldE (resolveName env) (names env) (targets, []) of
            Inl e \<Rightarrow> Inl e
          | Inr (targets', warnings) \<Rightarrow>
              Inr (targets', targetCache(getSubsetVariant env \<mapsto> targets'), warnings)))"

section \<open>The GSI aircraft bias converter\<close>

text \<open>
  \<^verbatim>\<open>main\<close> of \<^verbatim>\<open>GsiAircraftBiasConverter.cc\<close>. The YAML file is taken as read into the
  record \<open>Config\<close> (the accessors of eckit are outside the model); \<^verbatim>\<open>gsi_npredictors\<close>,
  \<^verbatim>\<open>findTailIds\<close> and \<^verbatim>\<open>findDatetimes\<close> come from \<^verbatim>\<open>GsiAircraftBiasReader.h\<close>, which is
  not among the sources, and are parameters. What \<^verbatim>\<open>main\<close> does after the check is
  recorded as the list of its two calls.
\<close>

record OutputConfig =
  outputFile :: string
  predictors :: "string list"

record Config =
  inputCoeffFile :: string
  outputConfigs :: "OutputConfig list"

datatype exception = AssertionFailed | BadValue string | SubscriptOutOfRange

datatype action =
    CreateFile string
  | MakeObsBiasObject string "string list" "int list" "string list"

definition main ::
  "nat \<Rightarrow> (string \<Rightarrow> string list) \<Rightarrow> (string \<Rightarrow> int list) \<Rightarrow> int \<Rightarrow> Config
     \<Rightarrow> exception + action list" where
  "main gsi_npredictors findTailIds findDatetimes argc config =
    (if \<not> argc \<ge> 2 then Inl AssertionFailed
     else
       (let coeffile = inputCoeffFile config;
            tailIds = findTailIds coeffile;
            lastCycleUpdatedYYYYMM = findDatetimes coeffile
        in
        case outputConfigs config of
          [] \<Rightarrow> Inl SubscriptOutOfRange
        | config0 # _ \<Rightarrow>
            (let output_filename = outputFile config0;
                 preds = predictors config0
             in
             if length preds \<noteq> gsi_npredictors then
               Inl (BadValue (''Number of predictors specified in yaml must be ''
                      @ to_string gsi_npredictors
                      @ '' (same as number of predictors in GSI aircraft bias file)''))
             else
               Inr [CreateFile output_filename,
                    MakeObsBiasObject coeffile tailIds lastCycleUpdatedYYYYMM preds])))"

section \<open>Example inputs\<close>

text \<open>
  A query set with two names over a subset whose table resolves the path of the
  first (\<open>latitude\<close>, at node 5 below the subset node 1) and not that of the second.
\<close>

definition exampleEnv :: QueryEnv where
  "exampleEnv =
    \<lparr>names = [''latitude'', ''radiance''],
     queriesFor = (\<lambda>nm.
        if nm = ''latitude'' then
          [\<lparr>querySubset = defaultComponent\<lparr>isAnySubset := True\<rparr>,
            queryPath = [defaultComponent\<lparr>qcName := ''CLAT''\<rparr>], str = ''*/CLAT''\<rparr>]
        else
          [\<lparr>querySubset = defaultComponent\<lparr>isAnySubset := True\<rparr>,
            queryPath = [defaultComponent\<lparr>qcName := ''TMBR''\<rparr>], str = ''*/TMBR''\<rparr>]),
     getSubsetVariant = \<lparr>subsetName = ''NC000001'', variantId = 0\<rparr>,
     rootNodeIdx = 1,
     getNodeForPath = (\<lambda>p.
        if map qcName p = [''CLAT''] then
          Some \<lparr>tableNodeIdx = 5, mnemonic = ''CLAT'', mnemonicCnt = 1,
                nodeTypeInfo = \<lparr>isLongString = False, typeUnit = ''DEGREES''\<rparr>,
                pathNodes =
                  [\<lparr>pathNodeIdx = 1, parentIdx = 0, dimensionParentIdx = 0,
                     nodeType = Subset, fixedRepCount = 0\<rparr>,
                   \<lparr>pathNodeIdx = 5, parentIdx = 1, dimensionParentIdx = 1,
                     nodeType = Field, fixedRepCount = 0\<rparr>]\<rparr>
        else None),
     setPath = (\<lambda>p t. t\<lparr>path := p\<rparr>)\<rparr>"

definition exampleLatitude :: Target where
  "exampleLatitude =
    \<lparr>name = ''latitude'', queryStr = ''*/CLAT'', nodeIdx = 5, longStrId = ''CLAT#1'',
     targetDimPaths = [], typeInfo = \<lparr>isLongString = False, typeUnit = ''DEGREES''\<rparr>,
     exportDimIdxs = [],
     path =
       [\<lparr>queryComponent = defaultComponent\<lparr>isAnySubset := True\<rparr>, nodeId = 1,
          parentNodeId = 0, parentDimensionNodeId = 0, compType = Subset,
          fixedRepeatCount = 0\<rparr>,
        \<lparr>queryComponent = defaultComponent\<lparr>qcName := ''CLAT''\<rparr>, nodeId = 5,
          parentNodeId = 1, parentDimensionNodeId = 1, compType = Field,
          fixedRepeatCount = 0\<rparr>],
     seqPath = []\<rparr>"

definition exampleSentinel :: Target where
  \<comment> \<open>the target \<^verbatim>\<open>findTargets\<close> makes for \<open>radiance\<close>, which no query resolves\<close>
  "exampleSentinel =
    \<lparr>name = ''radiance'', queryStr = ''*/TMBR'', nodeIdx = 0, longStrId = [],
     targetDimPaths = [[defaultQuery]], typeInfo = defaultTypeInfo, exportDimIdxs = [0],
     path = [], seqPath = []\<rparr>"

definition exampleLookup :: "nat \<Rightarrow> NodeData" where
  "exampleLookup n = \<lparr>counts = [1], nodeData = Doubles [45.5]\<rparr>"

text \<open>A result set of one frame with one field, of a coded unit.\<close>

definition codedFrames :: "DataFrame list" where
  "codedFrames =
    [[\<lparr>data = [3, 7], seqCounts = [[1], [2]], dimPaths = [''*'', ''*/ROSEQ1''],
       exportDims = [0, 1], missing = False, unit = ''CODE TABLE''\<rparr>]]"

definition firstField :: "DataFrame \<Rightarrow> string \<Rightarrow> int" where
  "firstField dataFrame nm = 0"

definition exampleConfig :: Config where
  "exampleConfig =
    \<lparr>inputCoeffFile = ''abias_air'',
     outputConfigs = [\<lparr>outputFile = ''abias.nc'', predictors = [''constant'', ''ascent'']\<rparr>]\<rparr>"

text \<open>
  Fields of a result set with given values, sequence counts, dimension paths and
  export dimensions; a frame whose first field is \<open>target\<close> and whose second is the
  group-by field. The sequence counts start with the count \<open>[1]\<close> of the subset, as
  \<^verbatim>\<open>collectData\<close> writes them.
\<close>

definition countedField ::
  "real list \<Rightarrow> int list list \<Rightarrow> string list \<Rightarrow> int list \<Rightarrow> DataField" where
  "countedField vals cnts paths dims =
    \<lparr>data = vals, seqCounts = cnts, dimPaths = paths, exportDims = dims, missing = False,
     unit = ''K''\<rparr>"

definition byName :: "DataFrame \<Rightarrow> string \<Rightarrow> int" where
  "byName dataFrame nm = (if nm = ''target'' then 0 else 1)"

definition paddingFrames :: "real list \<Rightarrow> real list \<Rightarrow> real list \<Rightarrow> DataFrame list" where
  \<comment> \<open>three frames whose target field has 3, 5 and 2 repetitions\<close>
  "paddingFrames va vb vc =
    [[countedField va [[1], [3]] [''*'', ''*/SEQ''] [0, 1]],
     [countedField vb [[1], [5]] [''*'', ''*/SEQ''] [0, 1]],
     [countedField vc [[1], [2]] [''*'', ''*/SEQ''] [0, 1]]]"

definition groupFrames :: "real list \<Rightarrow> real list \<Rightarrow> DataFrame list" where
  \<comment> \<open>two frames: the target field repeats 2 times in each of 2 repetitions, the
      group-by field once in each of the 2 outer repetitions\<close>
  "groupFrames va vb =
    [[countedField va [[1], [2], [2, 2]] [''*'', ''*/A'', ''*/A/B''] [0, 1, 2],
      countedField [1, 2] [[1], [2]] [''*'', ''*/A''] [0, 1]],
     [countedField vb [[1], [2], [2, 2]] [''*'', ''*/A'', ''*/A/B''] [0, 1, 2],
      countedField [3, 4] [[1], [2]] [''*'', ''*/A''] [0, 1]]]"

text \<open>
  A target below two nested sequences (nodes 2 and 3 under the subset node 1, the
  field at node 4), with the filters of the two sequences as parameters, and a message
  in which the outer sequence occurs twice and the inner one twice in each.
\<close>

definition pathComponent :: "nat \<Rightarrow> nat \<Rightarrow> Typ \<Rightarrow> nat list \<Rightarrow> TargetComponent" where
  "pathComponent node parent ty flt =
    \<lparr>queryComponent = defaultComponent\<lparr>qfilter := flt\<rparr>, nodeId = node,
     parentNodeId = parent, parentDimensionNodeId = parent, compType = ty,
     fixedRepeatCount = 0\<rparr>"

definition nestedTarget :: "nat list \<Rightarrow> nat list \<Rightarrow> Target" where
  "nestedTarget outerFilter innerFilter =
    \<lparr>name = ''radiance'', queryStr = ''*/A/B/TMBR'', nodeIdx = 4, longStrId = ''TMBR#1'',
     targetDimPaths = [], typeInfo = \<lparr>isLongString = False, typeUnit = ''K''\<rparr>,
     exportDimIdxs = [0, 1, 2],
     path = [pathComponent 1 0 Subset [], pathComponent 2 1 DelayedRepeatSequence outerFilter,
             pathComponent 3 2 DelayedRepeatSequence innerFilter, pathComponent 4 3 Field []],
     seqPath = [2, 3]\<rparr>"

definition nestedLookup :: "real list \<Rightarrow> nat \<Rightarrow> NodeData" where
  "nestedLookup vals node =
    (if node = 2 then \<lparr>counts = [2], nodeData = Doubles []\<rparr>
     else if node = 3 then \<lparr>counts = [2, 2], nodeData = Doubles []\<rparr>
     else \<lparr>counts = [], nodeData = Doubles vals\<rparr>)"

section \<open>Observed counts\<close>

text \<open>
  For the statement of the export shape: \<open>observedCounts trees depth\<close> is the set of
  the counts that the count trees \<open>trees\<close> (one per frame) hold at \<open>depth\<close>, and
  \<open>entryOr0\<close> reads a dimension list, with 0 past its end.
\<close>

definition observedCounts :: "int list list list \<Rightarrow> nat \<Rightarrow> int set" where
  "observedCounts trees depth =
    (\<Union>scs \<in> set trees. if depth < length scs then set (scs ! depth) else {})"

definition entryOr0 :: "int list \<Rightarrow> nat \<Rightarrow> int" where
  "entryOr0 dl d = (if d < length dl then dl ! d else 0)"

section \<open>Leaf visits\<close>

text \<open>
  For the statement of how far \<^verbatim>\<open>_makeFilteredData\<close> advances the offset: the number of
  leaves the walk visits below a list of layers (the counts and the filter of each
  depth). An unfiltered layer is walked once per entry, a filtered one once per counted
  occurrence of each entry, and each time the whole of the layers below is walked.
\<close>

fun leafVisits :: "(int list \<times> nat list) list \<Rightarrow> nat" where
  "leafVisits [] = 1"
| "leafVisits ((layerCounts, layerFilter) # layers) =
    (if layerFilter = [] then length layerCounts else sum_list (map to_size_t layerCounts))
      * leafVisits layers"

section \<open>Evaluation rules\<close>

text \<open>Lists indexed, updated and built at numerals, for the evaluation of examples.\<close>

lemma replicate_numeral: "replicate (numeral k) x = x # replicate (numeral k - 1) x"
  by (simp add: numeral_eq_Suc)

lemma list_update_numeral: "(x # xs)[numeral k := y] = x # xs[numeral k - 1 := y]"
  by (simp add: numeral_eq_Suc)

lemma upt_0_numeral: "[0 ..< numeral k] = 0 # [1 ..< numeral k]"
  by (simp add: upt_rec)

lemma upt_Suc_numeral:
  "[Suc i ..< numeral k] = (if Suc i < numeral k then Suc i # [Suc (Suc i) ..< numeral k] else [])"
  by (simp add: upt_rec)

lemmas eval_lists = replicate_numeral list_update_numeral upt_0_numeral upt_Suc_numeral

lemmas getRawValues_defs = getRawValues_def computeDims_def initialDims_def frameStep_def
  fieldAtIdx_def resizeDims_def shapeOf_def atLeastOne_def groupByDims_def
  groupByExportDims_def fillFrame_def writeRows_def getRowsForField_def maxCountsOf_def
  inflateIdxs_def applyInsert_def computeInserts_def product_vec_def to_size_t_def
  to_int_def groupbyElementsForFrame_def MissingValue_def

lemmas findTargets_defs = findTargets_def resolveName_def makePath_def defaultQuery_def
  defaultComponent_def defaultTarget_def defaultTypeInfo_def defaultTargetComponent_def
  to_string_def

section \<open>Lemmas about the export\<close>

subsection \<open>Products and the group-by shape\<close>

lemma product_vec_prod_list_aux: "fold (\<lambda>x p. p * x) xs a = a * prod_list xs" for a :: int
  by (induction xs arbitrary: a) (auto simp: algebra_simps)

lemma product_vec_prod_list: "product_vec xs = prod_list xs"
  by (simp add: product_vec_def product_vec_prod_list_aux)

lemma fold_mult_head:
  "n \<le> length a \<Longrightarrow>
   fold (\<lambda>dimIdx dims. dims[0 := dims ! 0 * a ! dimIdx]) [0 ..< n] (x # xs)
     = (x * prod_list (take n a)) # xs" for x :: int
proof (induction n)
  case 0
  then show ?case by simp
next
  case (Suc n)
  then show ?case
    by (simp add: take_Suc_conv_app_nth)
qed

lemma fold_copy_tail:
  "n + k \<le> length a \<Longrightarrow> length ys = length a - n \<Longrightarrow>
   fold (\<lambda>dimIdx dims. dims[dimIdx - n + 1 := a ! dimIdx]) [n ..< n + k] (p # ys)
     = p # take k (drop n a) @ drop k ys"
proof (induction k)
  case 0
  then show ?case by simp
next
  case (Suc k)
  have "(take k (drop n a) @ drop k ys)[k := a ! (n + k)] = take (Suc k) (drop n a) @ drop (Suc k) ys"
    using Suc.prems
    by (simp add: list_update_append take_Suc_conv_app_nth upd_conv_take_nth_drop drop_Suc
        Cons_nth_drop_Suc min_def)
  with Suc show ?case
    by simp
qed

lemma groupByDims_closed:
  assumes "0 < g" and "g \<le> int (length allDims)"
  shows "groupByDims allDims g = product_vec (take (nat g) allDims) # drop (nat g) allDims"
proof -
  define n where "n = nat g"
  have n: "n \<le> length allDims" using assms by (simp add: n_def)
  have "[n ..< length allDims] = [n ..< n + (length allDims - n)]" using n by simp
  then show ?thesis
    using n fold_copy_tail [of n "length allDims - n" allDims "replicate (length allDims - n) 1"]
    unfolding groupByDims_def Let_def n_def [symmetric]
    by (simp add: fold_mult_head product_vec_prod_list del: upt_Suc)
qed

lemma getRowsForField_rows:
  assumes "getRowsForField targetField dims g = Inr rows"
      and "0 < g" and "g \<le> int (length (seqCounts targetField))"
  shows "length rows = to_size_t (product_vec (take (nat g) dims)) \<and>
         (\<forall>row \<in> set rows. length row = to_size_t (product_vec (drop (nat g) dims)))"
  using assms
  by (auto simp: getRowsForField_def Let_def split: if_splits sum.splits)

subsection \<open>The largest counts\<close>

lemma max_vec_Max: "c \<noteq> [] \<Longrightarrow> max_vec c = Max (set c)"
  by (cases c) (simp_all add: Max.set_eq_fold [symmetric])

lemma length_updateDimsList: "length (updateDimsList dl scs) = length dl"
  by (induction dl scs rule: updateDimsList.induct) simp_all

lemma nth_updateDimsList:
  "d < length dl \<Longrightarrow>
   updateDimsList dl scs ! d =
     (if d < length scs \<and> scs ! d \<noteq> [] then max (dl ! d) (max_vec (scs ! d)) else dl ! d)"
proof (induction dl scs arbitrary: d rule: updateDimsList.induct)
  case (3 x dl c cs)
  then show ?case by (cases d) simp_all
qed simp_all

lemma length_resizeDims: "length (resizeDims dl n) = max (length dl) n"
  by (simp add: resizeDims_def)

lemma nth_resizeDims: "d < max (length dl) n \<Longrightarrow> resizeDims dl n ! d = entryOr0 dl d"
  by (auto simp: resizeDims_def entryOr0_def nth_append)

lemma length_dimsStep:
  "length (updateDimsList (resizeDims dl (length scs)) scs) = max (length dl) (length scs)"
  by (simp add: length_updateDimsList length_resizeDims)

lemma entry_dimsStep:
  "entryOr0 (updateDimsList (resizeDims dl (length scs)) scs) d =
     Max (insert (entryOr0 dl d) (if d < length scs then set (scs ! d) else {}))"
proof (cases "d < max (length dl) (length scs)")
  case True
  then have "entryOr0 (updateDimsList (resizeDims dl (length scs)) scs) d =
      (if d < length scs \<and> scs ! d \<noteq> [] then max (entryOr0 dl d) (max_vec (scs ! d))
       else entryOr0 dl d)"
    by (simp add: entryOr0_def [of "updateDimsList _ _"] length_dimsStep nth_updateDimsList
        length_resizeDims nth_resizeDims)
  then show ?thesis
    by (auto simp: max_vec_Max)
next
  case False
  then show ?thesis
    by (auto simp: entryOr0_def length_dimsStep)
qed

lemma Max_insert_max:
  "finite S \<Longrightarrow> Max (insert (max a b) S) = Max (insert a (insert b S))"
  for a :: "'a :: linorder"
  by (cases "S = {}") (simp_all add: max.assoc)

lemma Max_insert_Max:
  "finite A \<Longrightarrow> finite B \<Longrightarrow> Max (insert (Max (insert a A)) B) = Max (insert a (A \<union> B))"
  for a :: "'a :: linorder"
  by (cases "A = {}"; cases "B = {}") (simp_all add: Max_Un max.assoc)

lemma fold_dimsStep_length:
  "length (fold (\<lambda>scs dl. updateDimsList (resizeDims dl (length scs)) scs) trees dl) =
     Max (insert (length dl) (length ` set trees))"
proof (induction trees arbitrary: dl)
  case Nil
  then show ?case by simp
next
  case (Cons t ts)
  show ?case
    by (simp add: Cons.IH length_dimsStep Max_insert_max insert_commute)
qed

lemma finite_observedCounts: "finite (observedCounts trees d)"
  by (simp add: observedCounts_def)

lemma fold_dimsStep_entry:
  "entryOr0 (fold (\<lambda>scs dl. updateDimsList (resizeDims dl (length scs)) scs) trees dl) d =
     Max (insert (entryOr0 dl d) (observedCounts trees d))"
proof (induction trees arbitrary: dl)
  case Nil
  then show ?case by (simp add: observedCounts_def)
next
  case (Cons t ts)
  have "observedCounts (t # ts) d =
          (if d < length t then set (t ! d) else {}) \<union> observedCounts ts d"
    by (simp add: observedCounts_def)
  then show ?case
    by (simp add: Cons.IH entry_dimsStep Max_insert_Max finite_observedCounts)
qed

subsection \<open>The first loop over the frames\<close>

lemma fieldAtIdx_Inr:
  "fieldAtIdx dataFrame i = Inr fld \<longleftrightarrow> 0 \<le> i \<and> i < int (length dataFrame) \<and> fld = dataFrame ! nat i"
  by (auto simp: fieldAtIdx_def)

lemma fieldAtIdx_Inl: "fieldAtIdx dataFrame i = Inl e \<Longrightarrow> e = FieldIndexOutOfRange"
  by (auto simp: fieldAtIdx_def split: if_splits)

lemma frameStep_dimsList:
  assumes "frameStep groupByField ti gi dataFrame st = Inr st'"
  shows "dsDimsList st' =
           updateDimsList (resizeDims (dsDimsList st) (length (seqCounts (dataFrame ! nat ti))))
             (seqCounts (dataFrame ! nat ti))"
  using assms
  by (auto simp: frameStep_def Let_def fieldAtIdx_Inr split: sum.splits if_splits)

lemma frameStep_no_groupby:
  assumes "frameStep [] ti gi dataFrame st = Inr st'"
  shows "dsGroupbyIdx st' = dsGroupbyIdx st"
  using assms
  by (auto simp: frameStep_def Let_def split: sum.splits)

lemma frameStep_Inl:
  "frameStep groupByField ti gi dataFrame st = Inl e \<Longrightarrow> e = FieldIndexOutOfRange \<or> e = BackOfEmpty"
  by (auto simp: frameStep_def Let_def split: sum.splits if_splits dest: fieldAtIdx_Inl)

lemma foldE_frameStep_dimsList:
  "foldE (frameStep groupByField ti gi) dataFrames st = Inr st' \<Longrightarrow>
   dsDimsList st' =
     fold (\<lambda>scs dl. updateDimsList (resizeDims dl (length scs)) scs)
       (map (\<lambda>dataFrame. seqCounts (dataFrame ! nat ti)) dataFrames) (dsDimsList st)"
proof (induction dataFrames arbitrary: st)
  case Nil
  then show ?case by simp
next
  case (Cons f fs)
  then show ?case
    by (auto split: sum.splits dest: frameStep_dimsList)
qed

lemma foldE_frameStep_no_groupby:
  "foldE (frameStep [] ti gi) dataFrames st = Inr st' \<Longrightarrow> dsGroupbyIdx st' = dsGroupbyIdx st"
proof (induction dataFrames arbitrary: st)
  case Nil
  then show ?case by simp
next
  case (Cons f fs)
  then show ?case
    by (auto split: sum.splits dest: frameStep_no_groupby)
qed

lemma foldE_Inl: "foldE f xs s = Inl e \<Longrightarrow> \<exists>x s'. x \<in> set xs \<and> f x s' = Inl e"
proof (induction xs arbitrary: s)
  case Nil
  then show ?case by simp
next
  case (Cons x xs)
  show ?case
  proof (cases "f x s")
    case (Inl e')
    with Cons.prems have "f x s = Inl e" by simp
    then show ?thesis by auto
  next
    case (Inr s1)
    with Cons.prems have "foldE f xs s1 = Inl e" by simp
    from Cons.IH [OF this] show ?thesis by auto
  qed
qed

lemma foldE_frameStep_valid:
  "foldE (frameStep groupByField ti gi) dataFrames st = Inr st' \<Longrightarrow>
   dataFrame \<in> set dataFrames \<Longrightarrow> 0 \<le> ti \<and> ti < int (length dataFrame)"
proof (induction dataFrames arbitrary: st)
  case Nil
  then show ?case by simp
next
  case (Cons f fs)
  from Cons.prems(1) obtain st1 where
    1: "frameStep groupByField ti gi f st = Inr st1" and 2: "foldE (frameStep groupByField ti gi) fs st1 = Inr st'"
    by (auto split: sum.splits)
  from 1 have "0 \<le> ti \<and> ti < int (length f)"
    by (auto simp: frameStep_def fieldAtIdx_Inr split: sum.splits)
  with Cons.IH [OF 2] Cons.prems(2) show ?case by auto
qed

lemma initialDims_Inr:
  assumes "initialDims fieldIndexForNodeNamed dataFrames fieldName groupByField = Inr (ti, gi, st0)"
  shows "dsDimsList st0 = [] \<and> dsGroupbyIdx st0 = 0"
  using assms
  by (auto simp: initialDims_def Let_def split: sum.splits list.splits)

lemma computeDims_Inr:
  assumes "computeDims fieldIndexForNodeNamed dataFrames fieldName groupByField = Inr (ti, st)"
  shows "\<exists>gi st0. initialDims fieldIndexForNodeNamed dataFrames fieldName groupByField
                     = Inr (ti, gi, st0)
                 \<and> foldE (frameStep groupByField ti gi) dataFrames st0 = Inr st"
  using assms
  by (auto simp: computeDims_def split: sum.splits prod.splits)

lemma computeDims_dimsList:
  assumes "computeDims fieldIndexForNodeNamed dataFrames fieldName groupByField = Inr (ti, st)"
  shows "dsDimsList st =
     fold (\<lambda>scs dl. updateDimsList (resizeDims dl (length scs)) scs)
       (map (\<lambda>dataFrame. seqCounts (dataFrame ! nat ti)) dataFrames) []"
proof -
  from computeDims_Inr [OF assms] obtain gi st0 where
    i: "initialDims fieldIndexForNodeNamed dataFrames fieldName groupByField = Inr (ti, gi, st0)"
    and f: "foldE (frameStep groupByField ti gi) dataFrames st0 = Inr st"
    by blast
  from foldE_frameStep_dimsList [OF f] initialDims_Inr [OF i] show ?thesis
    by simp
qed

lemma computeDims_no_groupby:
  assumes "computeDims fieldIndexForNodeNamed dataFrames fieldName [] = Inr (ti, st)"
  shows "dsGroupbyIdx st = 0"
proof -
  from computeDims_Inr [OF assms] obtain gi st0 where
    i: "initialDims fieldIndexForNodeNamed dataFrames fieldName [] = Inr (ti, gi, st0)"
    and f: "foldE (frameStep [] ti gi) dataFrames st0 = Inr st"
    by blast
  from foldE_frameStep_no_groupby [OF f] initialDims_Inr [OF i] show ?thesis
    by simp
qed

lemma computeDims_Inl:
  "computeDims fieldIndexForNodeNamed dataFrames fieldName groupByField = Inl e \<Longrightarrow>
   e = FieldIndexOutOfRange \<or> e = BackOfEmpty"
  by (auto simp: computeDims_def initialDims_def Let_def
      split: sum.splits list.splits prod.splits dest!: foldE_Inl frameStep_Inl fieldAtIdx_Inl)

lemma shapeOf_nonempty:
  assumes "dsDimsList st \<noteq> []"
  shows "fst (shapeOf st) \<noteq> []"
  using assms
  by (auto simp: shapeOf_def Let_def atLeastOne_def groupByDims_closed)

lemma computeDims_dimsList_nonempty:
  assumes c: "computeDims fieldIndexForNodeNamed dataFrames fieldName groupByField = Inr (ti, st)"
      and ne: "dataFrames \<noteq> []"
      and coll: "list_all (list_all (\<lambda>fld. seqCounts fld \<noteq> [])) dataFrames"
  shows "dsDimsList st \<noteq> []"
proof -
  from computeDims_Inr [OF c] obtain gi st0 where
    f: "foldE (frameStep groupByField ti gi) dataFrames st0 = Inr st"
    by blast
  from ne obtain frame0 rest where fr: "dataFrames = frame0 # rest" by (cases dataFrames) auto
  from foldE_frameStep_valid [OF f, of frame0] fr have v: "nat ti < length frame0" by auto
  with coll fr have "seqCounts (frame0 ! nat ti) \<noteq> []"
    by (auto simp: list_all_length)
  then have "0 < length (seqCounts (frame0 ! nat ti))" by simp
  moreover have "length (dsDimsList st) =
      Max (insert 0 (length ` set (map (\<lambda>dataFrame. seqCounts (dataFrame ! nat ti)) dataFrames)))"
    using computeDims_dimsList [OF c] by (simp add: fold_dimsStep_length)
  moreover have "length (seqCounts (frame0 ! nat ti)) \<le>
      Max (insert 0 (length ` set (map (\<lambda>dataFrame. seqCounts (dataFrame ! nat ti)) dataFrames)))"
    by (rule Max_ge) (auto simp: fr)
  ultimately show ?thesis by auto
qed

subsection \<open>The returned dimensions\<close>

text \<open>
  What \<^verbatim>\<open>getRawValues\<close> returns as \<open>dims\<close> is the shape of one frame with its first entry
  multiplied by the number of frames and, for more than one frame, sliced by the export
  dimensions.
\<close>

lemma getRawValues_dims:
  assumes "getRawValues fieldIndexForNodeNamed dataFrames fieldName groupByField = Inr raw"
  shows "\<exists>ti st. computeDims fieldIndexForNodeNamed dataFrames fieldName groupByField = Inr (ti, st)
           \<and> fst (shapeOf st) \<noteq> []
           \<and> (let dims' = (fst (shapeOf st))
                     [0 := to_int (int (to_size_t (fst (shapeOf st) ! 0) * length dataFrames))]
              in if length dataFrames > 1
                 then slice dims' (snd (snd (shapeOf st))) = Inr (rvDims raw)
                 else rvDims raw = dims')"
  using assms
  by (auto simp: getRawValues_def Let_def split: sum.splits prod.splits if_splits)

subsection \<open>Where the errors come from\<close>

lemma slice_Inl: "slice vec idxs = Inl e \<Longrightarrow> e = IndexOutOfRange"
  by (induction idxs) (auto split: if_splits sum.splits)

lemma scatter_Inl: "scatter idxs vs out = Inl e \<Longrightarrow> e = IndexOutOfRange"
  by (induction idxs vs out rule: scatter.induct) (auto split: if_splits)

lemma writeRow_Inl: "writeRow start row out = Inl e \<Longrightarrow> e = IndexOutOfRange"
  by (induction start row out rule: writeRow.induct) (auto split: if_splits)

lemma writeRows_Inl: "writeRows base frameData out = Inl e \<Longrightarrow> e = IndexOutOfRange"
  unfolding writeRows_def by (auto dest!: foldE_Inl writeRow_Inl)

lemma getRowsForField_Inl:
  "getRowsForField targetField dims g = Inl e \<Longrightarrow> e = BadAlloc \<or> e = IndexOutOfRange"
  by (auto simp: getRowsForField_def Let_def split: if_splits sum.splits dest: scatter_Inl)

lemma fillFrame_Inl:
  "fillFrame ti dims allDims g rowLength dataFrames frameIdx out = Inl e \<Longrightarrow>
   e = FieldIndexOutOfRange \<or> e = BadAlloc \<or> e = IndexOutOfRange"
  by (auto simp: fillFrame_def Let_def split: if_splits sum.splits
      dest: fieldAtIdx_Inl getRowsForField_Inl writeRows_Inl)

lemma getRawValues_DimsEmpty:
  assumes "getRawValues fieldIndexForNodeNamed dataFrames fieldName groupByField = Inl DimsEmpty"
  shows "\<exists>ti st. computeDims fieldIndexForNodeNamed dataFrames fieldName groupByField = Inr (ti, st)
           \<and> fst (shapeOf st) = []"
proof (cases "computeDims fieldIndexForNodeNamed dataFrames fieldName groupByField")
  case (Inl e)
  with assms computeDims_Inl [OF Inl] show ?thesis
    by (simp add: getRawValues_def)
next
  case (Inr r)
  obtain ti st where r: "r = (ti, st)" by (cases r)
  obtain dims allDims exportDms where s: "shapeOf st = (dims, allDims, exportDms)"
    by (cases "shapeOf st")
  show ?thesis
  proof (cases "dims = []")
    case True
    with Inr r s show ?thesis by simp
  next
    case False
    with assms Inr r s show ?thesis
      by (auto simp: getRawValues_def Let_def split: sum.splits if_splits
          dest!: foldE_Inl fillFrame_Inl slice_Inl)
  qed
qed

lemma getRawValues_not_FramesEmpty:
  "getRawValues fieldIndexForNodeNamed dataFrames fieldName groupByField \<noteq> Inl FramesEmpty"
proof
  assume a: "getRawValues fieldIndexForNodeNamed dataFrames fieldName groupByField = Inl FramesEmpty"
  show False
  proof (cases "computeDims fieldIndexForNodeNamed dataFrames fieldName groupByField")
    case (Inl e)
    with a computeDims_Inl [OF Inl] show ?thesis
      by (simp add: getRawValues_def)
  next
    case (Inr r)
    obtain ti st where r: "r = (ti, st)" by (cases r)
    obtain dims allDims exportDms where s: "shapeOf st = (dims, allDims, exportDms)"
      by (cases "shapeOf st")
    from a Inr r s show ?thesis
      by (auto simp: getRawValues_def Let_def split: sum.splits if_splits
          dest!: foldE_Inl fillFrame_Inl slice_Inl)
  qed
qed

section \<open>Lemmas about the filtered walk\<close>

text \<open>
  Whenever the walk returns, it has advanced the offset by the number of leaf visits,
  whatever \<open>skipResult\<close> is and whichever indices the filters keep.
\<close>

lemma foldE_offset_add:
  assumes "foldE f xs s = Inr s'"
      and "\<And>x t t'. x \<in> set xs \<Longrightarrow> f x t = Inr t' \<Longrightarrow> snd t' = snd t + w x"
  shows "snd s' = snd s + (sum_list (map w xs) :: nat)"
  using assms
proof (induction xs arbitrary: s)
  case Nil
  then show ?case by simp
next
  case (Cons x xs)
  from Cons.prems(1) obtain s1 where 1: "f x s = Inr s1" and 2: "foldE f xs s1 = Inr s'"
    by (auto split: sum.splits)
  from Cons.prems(2) [OF _ 1] have "snd s1 = snd s + w x" by simp
  moreover from Cons.IH [OF 2] Cons.prems(2) have "snd s' = snd s1 + sum_list (map w xs)"
    by simp
  ultimately show ?case by simp
qed

lemma walk_offset_is_leafVisits:
  "makeFilteredData_rec srcData origCounts filters depth skipResult s = Inr s' \<Longrightarrow>
   snd s' = snd s + leafVisits (drop depth (zip origCounts filters))"
proof (induction srcData origCounts filters depth skipResult s arbitrary: s'
    rule: makeFilteredData_rec.induct)
  case (1 srcData origCounts filters depth skipResult data offset)
  show ?case
  proof (cases "origCounts = [] \<or> depth > length origCounts - 1 \<or> depth \<ge> length filters")
    case True
    with "1.prems" show ?thesis
      by (auto split: if_splits)
  next
    case False
    then have p: "origCounts \<noteq> []" "\<not> length origCounts - 1 < depth"
      "\<not> length filters \<le> depth"
      by auto
    then have d: "depth < length origCounts" "depth < length filters"
      by (auto simp: neq_Nil_conv)
    let ?k = "leafVisits (drop (depth + 1) (zip origCounts filters))"
    have dr: "drop depth (zip origCounts filters) =
        (origCounts ! depth, filters ! depth) # drop (depth + 1) (zip origCounts filters)"
      using d by (simp add: Cons_nth_drop_Suc [symmetric])
    show ?thesis
    proof (cases "filters ! depth = []")
      case True
      with "1.prems" False have f: "foldE (\<lambda>c s.
            makeFilteredData_rec srcData origCounts filters (depth + 1) skipResult s)
          (origCounts ! depth) (data, offset) = Inr s'"
        by (simp add: Let_def)
      have "snd s' = snd (data, offset) + sum_list (map (\<lambda>c. ?k) (origCounts ! depth))"
      proof (rule foldE_offset_add [OF f])
        fix x t t'
        assume "makeFilteredData_rec srcData origCounts filters (depth + 1) skipResult t = Inr t'"
        from "1.IH"(1) [OF p refl refl True this]
        show "snd t' = snd t + ?k" by simp
      qed
      then show ?thesis
        by (simp add: dr True sum_list_triv)
    next
      case nonempty: False
      with "1.prems" False have f: "foldE (\<lambda>c s.
              if to_size_t c = SIZE_MAX then Inl LoopDiverges
              else
                foldE (\<lambda>count s'.
                    makeFilteredData_rec srcData origCounts filters (depth + 1)
                      (skipResult \<or> count \<notin> set (filters ! depth)) s')
                  [1 ..< to_size_t c + 1] s)
          (origCounts ! depth) (data, offset) = Inr s'"
        by (simp add: Let_def)
      have "snd s' = snd (data, offset)
          + sum_list (map (\<lambda>c. to_size_t c * ?k) (origCounts ! depth))"
      proof (rule foldE_offset_add [OF f])
        fix x t t'
        assume a: "(if to_size_t x = SIZE_MAX then Inl LoopDiverges
              else
                foldE (\<lambda>count s'.
                    makeFilteredData_rec srcData origCounts filters (depth + 1)
                      (skipResult \<or> count \<notin> set (filters ! depth)) s')
                  [1 ..< to_size_t x + 1] t) = Inr t'"
        then have nd: "to_size_t x \<noteq> SIZE_MAX"
          and g: "foldE (\<lambda>count s'.
                    makeFilteredData_rec srcData origCounts filters (depth + 1)
                      (skipResult \<or> count \<notin> set (filters ! depth)) s')
                  [1 ..< to_size_t x + 1] t = Inr t'"
          by (auto split: if_splits)
        have "snd t' = snd t + sum_list (map (\<lambda>count. ?k) [1 ..< to_size_t x + 1])"
        proof (rule foldE_offset_add [OF g])
          fix y u u'
          assume "makeFilteredData_rec srcData origCounts filters (depth + 1)
                      (skipResult \<or> y \<notin> set (filters ! depth)) u = Inr u'"
          from "1.IH"(2) [OF p refl refl nonempty nd this]
          show "snd u' = snd u + ?k" by simp
        qed
        then show "snd t' = snd t + to_size_t x * ?k"
          by (simp add: sum_list_triv)
      qed
      then show ?thesis
        by (simp add: dr nonempty sum_list_mult_const [symmetric] o_def)
    qed
  qed
qed

lemma leafVisits_deepest_only:
  "leafVisits (zip (replicate n [1] @ [layerCounts]) (replicate n [] @ [layerFilter])) =
     (if layerFilter = [] then length layerCounts else sum_list (map to_size_t layerCounts))"
  by (induction n) simp_all

section \<open>Sentinel targets\<close>

lemma exampleEnv_targets:
  "findTargets exampleEnv Map.empty [] =
     Inr ([exampleLatitude, exampleSentinel],
          [getSubsetVariant exampleEnv \<mapsto> [exampleLatitude, exampleSentinel]],
          [QueryDidNotApply ''*/TMBR'' (getSubsetVariant exampleEnv)])"
  by (simp add: findTargets_defs exampleEnv_def exampleLatitude_def exampleSentinel_def
      eval_lists)

text \<open>
  C5. A target with node index 0 whose type is not a long string is collected, whatever
  the message holds (\<open>lookupTable\<close>), as the single value \<open>MissingValue\<close> with the
  sequence counts \<open>[[1]]\<close>.
\<close>

theorem sentinel_target_single_missing:
  assumes "nodeIdx targ = 0" and "\<not> isLongString (typeInfo targ)"
  shows "collectField lookupTable targ =
           Inr \<lparr>target = targ, fieldData = Doubles [MissingValue], fieldSeqCounts = [[1]]\<rparr>"
  using assms by (simp add: collectField_def)

theorem sentinel_target_single_missing_witness:
  "nodeIdx exampleSentinel = 0 \<and> \<not> isLongString (typeInfo exampleSentinel) \<and>
   collectField exampleLookup exampleSentinel =
     Inr \<lparr>target = exampleSentinel, fieldData = Doubles [MissingValue],
          fieldSeqCounts = [[1]]\<rparr>"
  using sentinel_target_single_missing [of exampleSentinel exampleLookup]
  by (simp add: exampleSentinel_def defaultTypeInfo_def)

section \<open>The target cache\<close>

text \<open>
  C7. When \<^verbatim>\<open>findTargets\<close> has returned for a subset variant (on the path that builds
  and caches the targets, or on the path that finds them cached), a later call for the
  same variant, with the cache the first call left, returns the same target list, leaves
  the cache as it is and prints no warning, whatever the caller's list and the other
  parts of the environment are.
\<close>

theorem findTargets_cache_hit_same:
  assumes "findTargets env targetCache targets = Inr (found, targetCache', warnings)"
      and "getSubsetVariant env' = getSubsetVariant env"
  shows "findTargets env' targetCache' targets' = Inr (found, targetCache', [])"
  using assms
  by (auto simp: findTargets_def split: option.splits sum.splits prod.splits)

theorem findTargets_cache_hit_same_witness:
  "findTargets exampleEnv Map.empty [] =
     Inr ([exampleLatitude, exampleSentinel],
          [getSubsetVariant exampleEnv \<mapsto> [exampleLatitude, exampleSentinel]],
          [QueryDidNotApply ''*/TMBR'' (getSubsetVariant exampleEnv)]) \<and>
   findTargets exampleEnv
       [getSubsetVariant exampleEnv \<mapsto> [exampleLatitude, exampleSentinel]] [] =
     Inr ([exampleLatitude, exampleSentinel],
          [getSubsetVariant exampleEnv \<mapsto> [exampleLatitude, exampleSentinel]], [])"
  using findTargets_cache_hit_same [OF exampleEnv_targets refl, of "[]"] exampleEnv_targets
  by simp

section \<open>The element type of the exported object\<close>

text \<open>
  C8. When \<^verbatim>\<open>ResultSet::get\<close> returns an object, its element type is a function of the
  unit string of the field alone (the unit \<^verbatim>\<open>ResultSet::unit\<close> reads): strings for
  \<^verbatim>\<open>CCITT IA5\<close>, unsigned integers for \<^verbatim>\<open>CODE TABLE\<close>, \<^verbatim>\<open>FLAG TABLE\<close> and \<^verbatim>\<open>NUMERIC\<close>,
  floats for every other unit.
\<close>

theorem get_element_type_from_unit:
  assumes "ResultSet_get fieldIndexForNodeNamed dataFrames fieldName groupByFieldName = Inr obj"
  shows "\<exists>u. ResultSet_unit fieldIndexForNodeNamed dataFrames fieldName = Inr u \<and>
           elementType obj =
             (if u = ''CCITT IA5'' then StringElements
              else if u = ''CODE TABLE'' \<or> u = ''FLAG TABLE'' \<or> u = ''NUMERIC''
                then UInt32Elements
              else FloatElements)"
proof -
  from assms obtain u where u: "ResultSet_unit fieldIndexForNodeNamed dataFrames fieldName = Inr u"
    and ty: "elementType obj = elementTypeOfUnit u"
    by (auto simp: ResultSet_get_def split: sum.splits if_splits)
  show ?thesis
    unfolding u ty elementTypeOfUnit_def by blast
qed

theorem get_element_type_from_unit_witness:
  "\<exists>obj. ResultSet_get firstField codedFrames ''quality'' [] = Inr obj \<and>
         ResultSet_unit firstField codedFrames ''quality'' = Inr ''CODE TABLE'' \<and>
         elementType obj = UInt32Elements"
proof -
  have u: "ResultSet_unit firstField codedFrames ''quality'' = Inr ''CODE TABLE''"
    by (simp add: ResultSet_unit_def codedFrames_def firstField_def fieldAtIdx_def)
  have "getRawValues firstField codedFrames ''quality'' [] =
          Inr \<lparr>rvData = [3, 7], rvDims = [1, 2], rvDimPaths = [''*'', ''*/ROSEQ1'']\<rparr>"
    by (simp add: getRawValues_defs codedFrames_def firstField_def eval_lists Let_def)
  then obtain obj where g: "ResultSet_get firstField codedFrames ''quality'' [] = Inr obj"
    by (simp add: ResultSet_get_def u)
  from get_element_type_from_unit [OF g] u g show ?thesis
    by auto
qed

section \<open>The predictor check of the converter\<close>

text \<open>
  C10. When \<^verbatim>\<open>main\<close> reaches the check (at least one argument, at least one entry under
  \<^verbatim>\<open>output\<close>), it throws \<^verbatim>\<open>eckit::BadValue\<close> exactly when the number of predictors of
  the first output entry differs from \<^verbatim>\<open>gsi_npredictors\<close>; when the numbers are equal it
  goes on to create the output file and to make the bias object.
\<close>

theorem main_bad_value_iff:
  assumes "argc \<ge> 2" and "outputConfigs config = config0 # rest"
  shows "((\<exists>msg. main gsi_npredictors findTailIds findDatetimes argc config = Inl (BadValue msg))
            \<longleftrightarrow> length (predictors config0) \<noteq> gsi_npredictors)
         \<and> (length (predictors config0) = gsi_npredictors \<longrightarrow>
              main gsi_npredictors findTailIds findDatetimes argc config =
                Inr [CreateFile (outputFile config0),
                     MakeObsBiasObject (inputCoeffFile config)
                       (findTailIds (inputCoeffFile config))
                       (findDatetimes (inputCoeffFile config)) (predictors config0)])"
  using assms by (simp add: main_def Let_def)

theorem main_bad_value_iff_witness:
  "(\<exists>msg. main 3 (\<lambda>f. [''N123'']) (\<lambda>f. [202301]) 2 exampleConfig = Inl (BadValue msg)) \<and>
   main 2 (\<lambda>f. [''N123'']) (\<lambda>f. [202301]) 2 exampleConfig =
     Inr [CreateFile ''abias.nc'',
          MakeObsBiasObject ''abias_air'' [''N123''] [202301] [''constant'', ''ascent'']]"
  using
    main_bad_value_iff [of 2 exampleConfig "hd (outputConfigs exampleConfig)" "[]" 3
      "\<lambda>f. [''N123'']" "\<lambda>f. [202301]"]
    main_bad_value_iff [of 2 exampleConfig "hd (outputConfigs exampleConfig)" "[]" 2
      "\<lambda>f. [''N123'']" "\<lambda>f. [202301]"]
  by (simp add: exampleConfig_def)

section \<open>The export shape\<close>

text \<open>
  C2. Without a group-by field, the shape \<^verbatim>\<open>getRawValues\<close> computes for one frame
  (\<open>dims\<close>, before its first entry is multiplied by the number of frames) has one
  entry per depth of the deepest count tree of the target field; the entry at a depth
  is the largest count any frame holds at that depth, or 1 when that maximum is 0 (no
  frame holds a count there, or only zeros). Every entry is at least 1. The maximum is
  taken from 0 on (\<^verbatim>\<open>dimsList\<close> is resized with zeros), which is the maximum of the
  observed counts as soon as one is observed and none is negative.
\<close>

theorem export_shape_is_max_count:
  assumes "computeDims fieldIndexForNodeNamed dataFrames fieldName [] = Inr (targetFieldIdx, st)"
  defines "trees \<equiv> map (\<lambda>dataFrame. seqCounts (dataFrame ! nat targetFieldIdx)) dataFrames"
  shows "fst (shapeOf st) =
           map (\<lambda>depth. let m = Max (insert 0 (observedCounts trees depth))
                        in if m = 0 then 1 else m)
             [0 ..< Max (insert 0 (length ` set trees))]
         \<and> list_all (\<lambda>dim. 1 \<le> dim) (fst (shapeOf st))
         \<and> (\<forall>depth. observedCounts trees depth \<noteq> {}
                \<and> (\<forall>c \<in> observedCounts trees depth. 0 \<le> c) \<longrightarrow>
              Max (insert 0 (observedCounts trees depth)) = Max (observedCounts trees depth))"
proof -
  let ?dl = "dsDimsList st"
  have nonneg: "Max (insert 0 (observedCounts trees depth)) = Max (observedCounts trees depth)"
    if "observedCounts trees depth \<noteq> {}" "\<forall>c \<in> observedCounts trees depth. 0 \<le> c"
    for depth
  proof -
    have "Max (observedCounts trees depth) \<in> observedCounts trees depth"
      using that(1) by (simp add: finite_observedCounts)
    with that(2) have "0 \<le> Max (observedCounts trees depth)" by blast
    with that(1) show ?thesis
      by (simp add: finite_observedCounts)
  qed
  have len: "length ?dl = Max (insert 0 (length ` set trees))"
    using computeDims_dimsList [OF assms(1)] by (simp add: trees_def fold_dimsStep_length)
  have entry: "?dl ! d = Max (insert 0 (observedCounts trees d))" if "d < length ?dl" for d
    using computeDims_dimsList [OF assms(1)] fold_dimsStep_entry [of trees "[]" d] that
    by (simp add: trees_def entryOr0_def)
  have shape: "fst (shapeOf st) = atLeastOne ?dl"
    using computeDims_no_groupby [OF assms(1)] by (simp add: shapeOf_def Let_def)
  have "atLeastOne ?dl =
          map (\<lambda>depth. let m = Max (insert 0 (observedCounts trees depth))
                        in if m = 0 then 1 else m) [0 ..< length ?dl]"
    by (rule nth_equalityI) (simp_all add: atLeastOne_def entry Let_def)
  moreover have "list_all (\<lambda>dim. 1 \<le> dim) (atLeastOne ?dl)"
  proof -
    have "0 \<le> ?dl ! d" if "d < length ?dl" for d
      using entry [OF that] by (simp add: finite_observedCounts)
    then have "1 \<le> (if ?dl ! d = 0 then 1 else ?dl ! d)" if "d < length ?dl" for d
      using that by force
    then show ?thesis
      by (simp add: atLeastOne_def list_all_length)
  qed
  ultimately show ?thesis
    using nonneg by (simp add: shape len)
qed

theorem export_shape_is_max_count_witness:
  "computeDims byName (paddingFrames [1, 2, 3] [4, 5, 6, 7, 8] [9, 10]) ''target'' [] =
     Inr (0, \<lparr>dsDimPaths = [''*'', ''*/SEQ''], dsExportDims = [0, 1], dsDimsList = [1, 5],
              dsGroupbyIdx = 0, dsTotalGroupbyElements = 0\<rparr>)
   \<and> fst (shapeOf \<lparr>dsDimPaths = [''*'', ''*/SEQ''], dsExportDims = [0, 1],
                    dsDimsList = [1, 5], dsGroupbyIdx = 0, dsTotalGroupbyElements = 0\<rparr>) =
       map (\<lambda>depth. let m = Max (insert 0 (observedCounts [[[1], [3]], [[1], [5]], [[1], [2]]] depth))
                    in if m = 0 then 1 else m)
         [0 ..< Max (insert 0 (length ` set [[[1], [3]], [[1], [5]], [[1], [2 :: int]]]))]
   \<and> fst (shapeOf \<lparr>dsDimPaths = [''*'', ''*/SEQ''], dsExportDims = [0, 1],
                    dsDimsList = [1, 5], dsGroupbyIdx = 0, dsTotalGroupbyElements = 0\<rparr>) =
       [1, 5]"
proof -
  have c: "computeDims byName (paddingFrames [1, 2, 3] [4, 5, 6, 7, 8] [9, 10]) ''target'' [] =
     Inr (0, \<lparr>dsDimPaths = [''*'', ''*/SEQ''], dsExportDims = [0, 1], dsDimsList = [1, 5],
              dsGroupbyIdx = 0, dsTotalGroupbyElements = 0\<rparr>)"
    by (simp add: getRawValues_defs paddingFrames_def countedField_def byName_def eval_lists
        Let_def)
  have s: "fst (shapeOf \<lparr>dsDimPaths = [''*'', ''*/SEQ''], dsExportDims = [0, 1],
                    dsDimsList = [1, 5], dsGroupbyIdx = 0, dsTotalGroupbyElements = 0\<rparr>) =
       [1, 5]"
    by (simp add: shapeOf_def atLeastOne_def Let_def)
  from export_shape_is_max_count [OF c] c s show ?thesis
    by (simp add: paddingFrames_def countedField_def)
qed

section \<open>Padding to the common shape\<close>

text \<open>
  C3. Three frames whose target field has 3, 5 and 2 repetitions (sequence counts
  \<open>[[1], [3]]\<close>, \<open>[[1], [5]]\<close> and \<open>[[1], [2]]\<close>: the count of the subset, then that of the
  sequence) and no group-by field: \<^verbatim>\<open>getRawValues\<close> gives each frame a row of 5 elements
  (\<open>dims = [3, 5]\<close>); the row of the first frame is its three values followed by two
  missing values, that of the third its two values followed by three missing values.
  The rows are also those \<^verbatim>\<open>getRowsForField\<close> returns for the two frames.
\<close>

theorem padding_three_frames:
  "getRawValues byName (paddingFrames [a0, a1, a2] [b0, b1, b2, b3, b4] [c0, c1]) ''target'' [] =
     Inr \<lparr>rvData = [a0, a1, a2, MissingValue, MissingValue,
                    b0, b1, b2, b3, b4,
                    c0, c1, MissingValue, MissingValue, MissingValue],
          rvDims = [3, 5], rvDimPaths = [''*'', ''*/SEQ'']\<rparr>
   \<and> getRowsForField (countedField [a0, a1, a2] [[1], [3]] [''*'', ''*/SEQ''] [0, 1]) [1, 5] 0 =
       Inr [[a0, a1, a2, MissingValue, MissingValue]]
   \<and> getRowsForField (countedField [c0, c1] [[1], [2]] [''*'', ''*/SEQ''] [0, 1]) [1, 5] 0 =
       Inr [[c0, c1, MissingValue, MissingValue, MissingValue]]"
  by (simp add: getRawValues_defs paddingFrames_def countedField_def byName_def eval_lists
      Let_def)

theorem padding_three_frames_witness:
  "getRawValues byName (paddingFrames [1, 2, 3] [4, 5, 6, 7, 8] [9, 10]) ''target'' [] =
     Inr \<lparr>rvData = [1, 2, 3, MissingValue, MissingValue, 4, 5, 6, 7, 8,
                    9, 10, MissingValue, MissingValue, MissingValue],
          rvDims = [3, 5], rvDimPaths = [''*'', ''*/SEQ'']\<rparr>"
  using padding_three_frames [of 1 2 3 4 5 6 7 8 9 10] by simp

section \<open>Group-by at or above the depth of the target\<close>

text \<open>
  C6. When the group-by depth \<open>groupbyIdx\<close> is positive and at most the number of
  depths of the target field, the shape of one frame is the product of the leading
  \<open>groupbyIdx\<close> dimensions followed by the other dimensions, and every frame whose
  count tree is at least that deep is returned by \<^verbatim>\<open>getRowsForField\<close> as that many rows,
  each of as many elements as the product of the other dimensions. In particular, for
  two frames whose target field repeats twice in each of two repetitions, grouped by a
  field of the outer repetition, each frame gives 2 rows of 2 elements
  (\<open>dims = [4, 2]\<close> for the two frames together).
\<close>

theorem groupby_collapses_leading_dims:
  "(0 < dsGroupbyIdx st \<and> dsGroupbyIdx st \<le> int (length (dsDimsList st)) \<longrightarrow>
      fst (shapeOf st) =
        product_vec (take (nat (dsGroupbyIdx st)) (atLeastOne (dsDimsList st)))
          # drop (nat (dsGroupbyIdx st)) (atLeastOne (dsDimsList st))
      \<and> (\<forall>targetField rows.
            dsGroupbyIdx st \<le> int (length (seqCounts targetField)) \<and>
            getRowsForField targetField (atLeastOne (dsDimsList st)) (dsGroupbyIdx st)
              = Inr rows \<longrightarrow>
            length rows =
              to_size_t (product_vec
                (take (nat (dsGroupbyIdx st)) (atLeastOne (dsDimsList st))))
            \<and> list_all (\<lambda>row. length row =
                  to_size_t (product_vec
                    (drop (nat (dsGroupbyIdx st)) (atLeastOne (dsDimsList st))))) rows))
   \<and> getRawValues byName (groupFrames [a0, a1, a2, a3] [b0, b1, b2, b3]) ''target'' ''group'' =
       Inr \<lparr>rvData = [a0, a1, a2, a3, b0, b1, b2, b3], rvDims = [4, 2],
            rvDimPaths = [''*/A'', ''*/A/B'']\<rparr>
   \<and> getRowsForField
         (countedField [a0, a1, a2, a3] [[1], [2], [2, 2]] [''*'', ''*/A'', ''*/A/B''] [0, 1, 2])
         [1, 2, 2] 2 = Inr [[a0, a1], [a2, a3]]
   \<and> getRowsForField
         (countedField [b0, b1, b2, b3] [[1], [2], [2, 2]] [''*'', ''*/A'', ''*/A/B''] [0, 1, 2])
         [1, 2, 2] 2 = Inr [[b0, b1], [b2, b3]]"
proof (intro conjI impI allI)
  assume g: "0 < dsGroupbyIdx st \<and> dsGroupbyIdx st \<le> int (length (dsDimsList st))"
  then show "fst (shapeOf st) =
        product_vec (take (nat (dsGroupbyIdx st)) (atLeastOne (dsDimsList st)))
          # drop (nat (dsGroupbyIdx st)) (atLeastOne (dsDimsList st))"
    by (simp add: shapeOf_def Let_def groupByDims_closed atLeastOne_def)
  fix targetField rows
  assume r: "dsGroupbyIdx st \<le> int (length (seqCounts targetField)) \<and>
      getRowsForField targetField (atLeastOne (dsDimsList st)) (dsGroupbyIdx st) = Inr rows"
  with g getRowsForField_rows [of targetField "atLeastOne (dsDimsList st)" "dsGroupbyIdx st" rows]
  show "length rows =
      to_size_t (product_vec (take (nat (dsGroupbyIdx st)) (atLeastOne (dsDimsList st))))"
    and "list_all (\<lambda>row. length row =
          to_size_t (product_vec
            (drop (nat (dsGroupbyIdx st)) (atLeastOne (dsDimsList st))))) rows"
    by (simp_all add: list_all_iff)
next
  show "getRawValues byName (groupFrames [a0, a1, a2, a3] [b0, b1, b2, b3]) ''target'' ''group'' =
       Inr \<lparr>rvData = [a0, a1, a2, a3, b0, b1, b2, b3], rvDims = [4, 2],
            rvDimPaths = [''*/A'', ''*/A/B'']\<rparr>"
    by (simp add: getRawValues_defs groupFrames_def countedField_def byName_def eval_lists
        Let_def)
next
  show "getRowsForField
         (countedField [a0, a1, a2, a3] [[1], [2], [2, 2]] [''*'', ''*/A'', ''*/A/B''] [0, 1, 2])
         [1, 2, 2] 2 = Inr [[a0, a1], [a2, a3]]"
    by (simp add: getRawValues_defs countedField_def eval_lists Let_def)
next
  show "getRowsForField
         (countedField [b0, b1, b2, b3] [[1], [2], [2, 2]] [''*'', ''*/A'', ''*/A/B''] [0, 1, 2])
         [1, 2, 2] 2 = Inr [[b0, b1], [b2, b3]]"
    by (simp add: getRawValues_defs countedField_def eval_lists Let_def)
qed

theorem groupby_collapses_leading_dims_witness:
  "computeDims byName (groupFrames [1, 2, 3, 4] [5, 6, 7, 8]) ''target'' ''group'' =
     Inr (0, \<lparr>dsDimPaths = [''*/A'', ''*/A/B''], dsExportDims = [0, 1, 2],
              dsDimsList = [1, 2, 2], dsGroupbyIdx = 2, dsTotalGroupbyElements = 0\<rparr>)
   \<and> fst (shapeOf \<lparr>dsDimPaths = [''*/A'', ''*/A/B''], dsExportDims = [0, 1, 2],
                    dsDimsList = [1, 2, 2], dsGroupbyIdx = 2,
                    dsTotalGroupbyElements = 0\<rparr>) = [2, 2]
   \<and> getRawValues byName (groupFrames [1, 2, 3, 4] [5, 6, 7, 8]) ''target'' ''group'' =
       Inr \<lparr>rvData = [1, 2, 3, 4, 5, 6, 7, 8], rvDims = [4, 2],
            rvDimPaths = [''*/A'', ''*/A/B'']\<rparr>"
proof -
  have c: "computeDims byName (groupFrames [1, 2, 3, 4] [5, 6, 7, 8]) ''target'' ''group'' =
     Inr (0, \<lparr>dsDimPaths = [''*/A'', ''*/A/B''], dsExportDims = [0, 1, 2],
              dsDimsList = [1, 2, 2], dsGroupbyIdx = 2, dsTotalGroupbyElements = 0\<rparr>)"
    by (simp add: getRawValues_defs groupFrames_def countedField_def byName_def eval_lists
        Let_def)
  from groupby_collapses_leading_dims
         [of "\<lparr>dsDimPaths = [''*/A'', ''*/A/B''], dsExportDims = [0, 1, 2],
               dsDimsList = [1, 2, 2], dsGroupbyIdx = 2, dsTotalGroupbyElements = 0\<rparr>"
             1 2 3 4 5 6 7 8] c
  show ?thesis
    by (simp add: atLeastOne_def product_vec_def)
qed

section \<open>Result sets without frames\<close>

text \<open>
  What \<^verbatim>\<open>collectData\<close> writes to a field always has at least the count of the subset.
\<close>

lemma collectStep_length:
  "collectStep lookupTable targ pathIdx st = Inr st' \<Longrightarrow>
   length (csSeqCounts st') = length (csSeqCounts st)"
  by (auto simp: collectStep_def Let_def split: if_splits)

lemma foldE_collectStep_length:
  "foldE (collectStep lookupTable targ) idxs st = Inr st' \<Longrightarrow>
   length (csSeqCounts st') = length (csSeqCounts st)"
proof (induction idxs arbitrary: st)
  case Nil
  then show ?case by simp
next
  case (Cons i idxs)
  then show ?case
    by (auto split: sum.splits dest: collectStep_length)
qed

lemma collectField_seqCounts_nonempty:
  assumes "collectField lookupTable targ = Inr fld"
  shows "fieldSeqCounts fld \<noteq> []"
proof (cases "nodeIdx targ = 0")
  case True
  with assms show ?thesis by (auto simp: collectField_def)
next
  case False
  with assms obtain st where
    f: "foldE (collectStep lookupTable targ) [0 ..< length (seqPath targ)]
          \<lparr>csSeqCounts = (replicate (length (seqPath targ) + 1) [])[0 := [1]], csCounts = [],
           csFilters = [], csHasFilter = False\<rparr> = Inr st"
    and s: "fieldSeqCounts fld = csSeqCounts st"
    by (auto simp: collectField_def Let_def split: sum.splits if_splits)
  from foldE_collectStep_length [OF f] s show ?thesis
    by auto
qed

text \<open>
  C9. On a result set without frames \<^verbatim>\<open>getRawValues\<close> reaches \<^verbatim>\<open>dims[0]\<close> with an empty
  \<open>dims\<close>, \<^verbatim>\<open>unit\<close> takes \<^verbatim>\<open>front()\<close> of the empty frame list, and \<^verbatim>\<open>get\<close> fails in its
  call of \<^verbatim>\<open>getRawValues\<close>. With at least one frame, every field of every frame holding
  a non-empty count tree (as the fields \<^verbatim>\<open>collectData\<close> fills do), neither access is out
  of bounds in any of the three functions.
\<close>

theorem frames_precondition:
  "(getRawValues fieldIndexForNodeNamed [] fieldName groupByField = Inl DimsEmpty
      \<and> ResultSet_unit fieldIndexForNodeNamed [] fieldName = Inl FramesEmpty
      \<and> ResultSet_get fieldIndexForNodeNamed [] fieldName groupByField = Inl DimsEmpty)
   \<and> (dataFrames \<noteq> [] \<and> list_all (list_all (\<lambda>fld. seqCounts fld \<noteq> [])) dataFrames \<longrightarrow>
        getRawValues fieldIndexForNodeNamed dataFrames fieldName groupByField \<noteq> Inl DimsEmpty
      \<and> ResultSet_unit fieldIndexForNodeNamed dataFrames fieldName \<noteq> Inl FramesEmpty
      \<and> ResultSet_get fieldIndexForNodeNamed dataFrames fieldName groupByField \<noteq> Inl DimsEmpty
      \<and> ResultSet_get fieldIndexForNodeNamed dataFrames fieldName groupByField \<noteq> Inl FramesEmpty)"
proof (intro conjI impI)
  show e: "getRawValues fieldIndexForNodeNamed [] fieldName groupByField = Inl DimsEmpty"
    by (simp add: getRawValues_def computeDims_def initialDims_def shapeOf_def atLeastOne_def)
  show "ResultSet_unit fieldIndexForNodeNamed [] fieldName = Inl FramesEmpty"
    by (simp add: ResultSet_unit_def)
  show "ResultSet_get fieldIndexForNodeNamed [] fieldName groupByField = Inl DimsEmpty"
    by (simp add: ResultSet_get_def e)
next
  assume a: "dataFrames \<noteq> [] \<and> list_all (list_all (\<lambda>fld. seqCounts fld \<noteq> [])) dataFrames"
  show r: "getRawValues fieldIndexForNodeNamed dataFrames fieldName groupByField \<noteq> Inl DimsEmpty"
  proof
    assume "getRawValues fieldIndexForNodeNamed dataFrames fieldName groupByField = Inl DimsEmpty"
    from getRawValues_DimsEmpty [OF this] obtain ti st where
      c: "computeDims fieldIndexForNodeNamed dataFrames fieldName groupByField = Inr (ti, st)"
      and s: "fst (shapeOf st) = []"
      by blast
    from computeDims_dimsList_nonempty [OF c] a shapeOf_nonempty [of st] s show False
      by simp
  qed
  show u: "ResultSet_unit fieldIndexForNodeNamed dataFrames fieldName \<noteq> Inl FramesEmpty"
    using a by (auto simp: ResultSet_unit_def split: list.splits sum.splits dest: fieldAtIdx_Inl)
  show "ResultSet_get fieldIndexForNodeNamed dataFrames fieldName groupByField \<noteq> Inl DimsEmpty"
    using r a
    by (auto simp: ResultSet_get_def ResultSet_unit_def
        split: sum.splits list.splits if_splits dest: fieldAtIdx_Inl)
  show "ResultSet_get fieldIndexForNodeNamed dataFrames fieldName groupByField \<noteq> Inl FramesEmpty"
    using u getRawValues_not_FramesEmpty [of fieldIndexForNodeNamed dataFrames fieldName groupByField]
    by (auto simp: ResultSet_get_def split: sum.splits if_splits)
qed

theorem frames_precondition_witness:
  "codedFrames \<noteq> [] \<and> list_all (list_all (\<lambda>fld. seqCounts fld \<noteq> [])) codedFrames
   \<and> getRawValues firstField codedFrames ''quality'' [] \<noteq> Inl DimsEmpty
   \<and> ResultSet_unit firstField codedFrames ''quality'' \<noteq> Inl FramesEmpty
   \<and> ResultSet_get firstField codedFrames ''quality'' [] \<noteq> Inl DimsEmpty
   \<and> ResultSet_get firstField codedFrames ''quality'' [] \<noteq> Inl FramesEmpty
   \<and> getRawValues firstField [] ''quality'' [] = Inl DimsEmpty
   \<and> ResultSet_unit firstField [] ''quality'' = Inl FramesEmpty"
  using frames_precondition [of firstField "''quality''" "[]" codedFrames]
  by (simp add: codedFrames_def)

section \<open>Filters on nested sequences\<close>

text \<open>
  C1. The walk of \<^verbatim>\<open>_makeFilteredData\<close> for a filter on the outer of two nested
  sequences (query \<^verbatim>\<open>*/A[2]/B/TMBR\<close>, the message holding \<open>A\<close> twice and \<open>B\<close> twice in
  each, so four values \<open>a, b, c, d\<close> of the field). \<^verbatim>\<open>collectData\<close> hands over the
  counts \<open>[[1], [2], [1]]\<close> and the filters \<open>[[], [2], []]\<close>: the walk visits two leaves,
  ends at offset 2 and copies \<open>b\<close>; the values \<open>c\<close> and \<open>d\<close> are never reached, and the
  field is written with the counts \<open>[[1], [1], [2, 2]]\<close> for its single value. (In
  general the offset advances by \<open>leafVisits\<close>, lemma \<open>walk_offset_is_leafVisits\<close>, which
  is the sum of the deepest counts when the deepest level alone is filtered, lemma
  \<open>leafVisits_deepest_only\<close>.)
\<close>

theorem outer_filter_consumes_two_of_four:
  "makeFilteredData_rec [a, b, c, d] [[1], [2], [1]] [[], [2], []] 0 False ([], 0) =
     Inr ([b], 2)
   \<and> collectField (nestedLookup [a, b, c, d]) (nestedTarget [2] []) =
       Inr \<lparr>target = nestedTarget [2] [], fieldData = Doubles [b],
            fieldSeqCounts = [[1], [1], [2, 2]]\<rparr>"
  by (simp add: collectField_def collectStep_def makeFilteredData_def sum_vec_def
      nestedLookup_def nestedTarget_def pathComponent_def defaultComponent_def to_size_t_def
      SIZE_MAX_def eval_lists Let_def)

theorem outer_filter_consumes_two_of_four_witness:
  "makeFilteredData_rec [10, 20, 30, 40 :: real] [[1], [2], [1]] [[], [2], []] 0 False ([], 0) =
     Inr ([20], 2)"
  using outer_filter_consumes_two_of_four [of 10 20 30 40] by simp

text \<open>
  C4. The same target with the full filters \<^verbatim>\<open>*/A[1,2]/B[1,2]/TMBR\<close>: without filters
  the field is the four values with the counts \<open>[[1], [2], [2, 2]]\<close>; with the filters
  the walk goes through all of the inner counts \<open>[2, 2]\<close> once for each of the two
  outer occurrences, and its fifth leaf reads \<^verbatim>\<open>srcData[4]\<close>, past the end of the four
  values.
\<close>

theorem full_filters_read_past_the_values:
  "collectField (nestedLookup [a, b, c, d]) (nestedTarget [] []) =
     Inr \<lparr>target = nestedTarget [] [], fieldData = Doubles [a, b, c, d],
          fieldSeqCounts = [[1], [2], [2, 2]]\<rparr>
   \<and> collectField (nestedLookup [a, b, c, d]) (nestedTarget [1, 2] [1, 2]) =
       Inl IndexOutOfRange
   \<and> makeFilteredData_rec [a, b, c, d] [[1], [2], [2, 2]] [[], [1, 2], [1, 2]] 0 False
         ([], 0) = Inl IndexOutOfRange"
  by (simp add: collectField_def collectStep_def makeFilteredData_def sum_vec_def
      nestedLookup_def nestedTarget_def pathComponent_def defaultComponent_def to_size_t_def
      SIZE_MAX_def eval_lists Let_def)

theorem full_filters_read_past_the_values_witness:
  "collectField (nestedLookup [10, 20, 30, 40]) (nestedTarget [1, 2] [1, 2]) =
     Inl IndexOutOfRange"
  using full_filters_read_past_the_values [of 10 20 30 40] by simp

end
